theory Spec2Isabelle
  imports Main "HOL-Library.Word"
begin

unbundle bit_operations_syntax

section \<open>Bytes, strings and hexadecimal text\<close>

text \<open>
  A \<open>Uint8Array\<close> is a list of bytes. A JavaScript string is modelled as a \<open>string\<close>
  whose characters are the code points 0 to 255; the functions below never look at a
  character except through its code.
\<close>

type_synonym byte = "8 word"
type_synonym bytes = "byte list"
type_synonym u64 = "64 word"

text \<open>
  Errors thrown by the code are values. \<open>Error msg\<close> is \<open>new Error(msg)\<close>;
  \<open>ValidationError p\<close> is the error a \<open>validate...\<close> helper throws for parameter \<open>p\<close>.
\<close>

datatype error = Error string | ValidationError string

text \<open>
  Modelled from the spec: \<open>stringToUint8ArrayUtf8\<close> of \<open>src/utils/string\<close>, which is not
  among the sources; the spec writes it \<open>utf8(s)\<close>. Code points below 128 are one byte,
  the others (up to 255 in this model) two bytes.
\<close>

definition utf8_char :: "char \<Rightarrow> bytes" where
  "utf8_char ch =
     (if of_char ch < (128::nat) then [word_of_nat (of_char ch)]
      else [word_of_nat (192 + of_char ch div 64), word_of_nat (128 + of_char ch mod 64)])"

definition stringToUint8ArrayUtf8 :: "string \<Rightarrow> bytes" where
  "stringToUint8ArrayUtf8 s = concat (map utf8_char s)"

text \<open>
  Modelled from the spec: \<open>toHexString\<close> and \<open>hexToUint8Array\<close> of \<open>src/utils/string\<close>,
  which are not among the sources. The spec fixes the format: lowercase hexadecimal, two
  digits per byte, no prefix. \<open>hexToUint8Array\<close> rejects a string that is not
  hexadecimal text (so that \<open>hex_nibble\<close> never meets a character that is no digit); a
  trailing single digit is read as a byte of its own.
\<close>

definition hex_digit :: "nat \<Rightarrow> char" where
  "hex_digit n = (if n < 10 then char_of (48 + n) else char_of (87 + n))"

definition toHexString :: "bytes \<Rightarrow> string" where
  "toHexString bs = concat (map (\<lambda>x. [hex_digit (unat x div 16), hex_digit (unat x mod 16)]) bs)"

definition hex_value :: "char \<Rightarrow> nat option" where
  "hex_value ch =
     (let n = (of_char ch :: nat) in
      if 48 \<le> n \<and> n \<le> 57 then Some (n - 48)
      else if 97 \<le> n \<and> n \<le> 102 then Some (n - 87)
      else if 65 \<le> n \<and> n \<le> 70 then Some (n - 55)
      else None)"

definition isHexString :: "string \<Rightarrow> bool" where
  "isHexString s = list_all (\<lambda>ch. hex_value ch \<noteq> None) s"

definition hex_nibble :: "char \<Rightarrow> nat" where
  "hex_nibble ch = (case hex_value ch of Some n \<Rightarrow> n | None \<Rightarrow> 0)"

fun hex_bytes :: "string \<Rightarrow> bytes" where
  "hex_bytes (x # y # rest) = word_of_nat (hex_nibble x * 16 + hex_nibble y) # hex_bytes rest"
| "hex_bytes [x] = [word_of_nat (hex_nibble x)]"
| "hex_bytes [] = []"

definition hexToUint8Array :: "string \<Rightarrow> error + bytes" where
  "hexToUint8Array str =
     (if isHexString str then Inr (hex_bytes str) else Inl (ValidationError ''str''))"

section \<open>\<open>setJSON\<close> of the SkyDB module (\<open>src/unnamed/part_001\<close>)\<close>

text \<open>
  This file is the SkyDB module at a revision where a registry entry holds a skylink and a
  revision only; its types carry the suffix \<open>_v1\<close> to keep them apart from those of
  \<open>crypto.ts\<close>. The optional parameter \<open>revision\<close> is an \<open>int option\<close>,
  \<open>None\<close> for \<open>undefined\<close>.

  A revision is a JavaScript \<open>number\<close>, an IEEE 754 double. A number that holds an
  integer is modelled by that integer, and a sum is the exact sum rounded to the nearest
  double: exact up to \<open>2 ^ 53\<close>, and beyond it rounded to 53 significant bits, a tie
  going to the even significand. So \<open>2 ^ 53 + 1\<close> is \<open>2 ^ 53\<close> again. Numbers that
  are not integers, \<open>NaN\<close> and sums beyond the largest double are left out.
\<close>

fun bit_length :: "nat \<Rightarrow> nat" where
  "bit_length n = (if n = 0 then 0 else Suc (bit_length (n div 2)))"

definition round_to_double :: "int \<Rightarrow> int" where
  "round_to_double m =
     (if \<bar>m\<bar> \<le> 2 ^ 53 then m
      else (let a = nat \<bar>m\<bar>;
                u = 2 ^ (bit_length a - 53);
                q = a div u;
                r = a mod u
            in sgn m * int ((if 2 * r < u \<or> (2 * r = u \<and> even q) then q else q + 1) * u)))"

definition number_add :: "int \<Rightarrow> int \<Rightarrow> int" where
  "number_add x y = round_to_double (x + y)"

record RegistryEntry_v1 =
  data_v1 :: string
  revision_v1 :: int

text \<open>What \<open>registry.getEntry\<close> resolves to when an entry exists, with the fields \<open>setJSON\<close> reads.\<close>

record SignedEntry =
  entry :: RegistryEntry_v1
  entry_revision :: int
  signature :: bytes

record File =
  file_bits :: string
  file_name :: string
  file_type :: string

text \<open>
  The collaborators of \<open>setJSON\<close> are not among the sources and are parameters: the
  client \<open>this\<close> (the upload request and the registry, each of which may reject), and the
  library functions (\<open>JSON.stringify\<close>, the Ed25519 functions of \<open>node-forge\<close>,
  \<open>HashRegistryEntry\<close> and \<open>trimUriPrefix\<close>).
\<close>

record SkynetClient =
  uploadFileRequest :: "File \<Rightarrow> error + string"
  getEntry :: "bytes \<Rightarrow> string \<Rightarrow> error + SignedEntry option"
  setEntry :: "bytes \<Rightarrow> string \<Rightarrow> RegistryEntry_v1 \<Rightarrow> bytes \<Rightarrow> error + bool"

record 'json library =
  stringify :: "'json \<Rightarrow> string"
  publicKeyFromPrivateKey :: "bytes \<Rightarrow> bytes"
  verify :: "bytes \<Rightarrow> bytes \<Rightarrow> bytes \<Rightarrow> bool"
  sign :: "bytes \<Rightarrow> bytes \<Rightarrow> bytes"
  HashRegistryEntry :: "RegistryEntry_v1 \<Rightarrow> bytes"
  trimUriPrefix :: "string \<Rightarrow> string \<Rightarrow> string"
  uriSkynetPrefix :: string

text \<open>
  What a call does, in order: the numbers it writes with \<open>console.log\<close>, its requests to
  the client, and the entries it signs.
\<close>

datatype event =
  Log nat
| UploadFile File
| GetEntry bytes string
| Sign RegistryEntry_v1
| SetEntry bytes string RegistryEntry_v1 bytes

text \<open>
  The body of the block \<open>if (!revision) { ... }\<close>: the events it adds and the revision
  it leaves in \<open>revision\<close>, or the error it throws. \<open>verify\<close> takes the message, the
  signature and the public key. The message that is verified is the hash of
  \<open>entry.entry\<close>; the revision that is incremented is \<open>entry.revision\<close>, the field
  beside it. \<open>verify\<close> is a predicate: a call of \<open>pki.ed25519.verify\<close> that throws
  on a key or a signature of the wrong size is left out.
\<close>

definition fetch_revision ::
  "'json library \<Rightarrow> SkynetClient \<Rightarrow> bytes \<Rightarrow> string \<Rightarrow> event list \<times> (error + int)" where
  "fetch_revision L this publicKey dataKey =
     (case getEntry this publicKey dataKey of
        Inl e \<Rightarrow> ([Log 3, GetEntry publicKey dataKey], Inl e)
      | Inr None \<Rightarrow> ([Log 3, GetEntry publicKey dataKey, Log 4, Log 7], Inr 0)
      | Inr (Some found) \<Rightarrow>
          if \<not> verify L (HashRegistryEntry L (entry found)) (signature found) publicKey
          then ([Log 3, GetEntry publicKey dataKey, Log 4, Log 5, Log 6],
                Inl (Error ''could not verify signature''))
          else ([Log 3, GetEntry publicKey dataKey, Log 4, Log 5],
                Inr (number_add (entry_revision found) 1)))"

text \<open>
  The block itself. \<open>!revision\<close> holds when \<open>revision\<close> is \<open>undefined\<close> and when it
  is 0 (and when it is \<open>NaN\<close>, which is not an \<open>int\<close>).
\<close>

definition current_revision ::
  "'json library \<Rightarrow> SkynetClient \<Rightarrow> bytes \<Rightarrow> string \<Rightarrow> int option \<Rightarrow> event list \<times> (error + int)" where
  "current_revision L this publicKey dataKey revision =
     (case revision of
        None \<Rightarrow> fetch_revision L this publicKey dataKey
      | Some r \<Rightarrow> if r = 0 then fetch_revision L this publicKey dataKey else ([], Inr r))"

definition setJSON ::
  "'json library \<Rightarrow> SkynetClient \<Rightarrow> bytes \<Rightarrow> string \<Rightarrow> 'json \<Rightarrow> int option
     \<Rightarrow> event list \<times> (error + bool)" where
  "setJSON L this privateKey dataKey json revision =
     (let file = \<lparr>file_bits = stringify L json, file_name = dataKey,
                   file_type = ''application/json''\<rparr>
      in case uploadFileRequest this file of
           Inl e \<Rightarrow> ([Log 1, UploadFile file], Inl e)
         | Inr skylink \<Rightarrow>
             (let publicKey = publicKeyFromPrivateKey L privateKey
              in case current_revision L this publicKey dataKey revision of
                   (evs, Inl e) \<Rightarrow> ([Log 1, UploadFile file, Log 2] @ evs, Inl e)
                 | (evs, Inr next_revision) \<Rightarrow>
                     (let new_entry = \<lparr>data_v1 = trimUriPrefix L skylink (uriSkynetPrefix L),
                                        revision_v1 = next_revision\<rparr>;
                          sig = sign L (HashRegistryEntry L new_entry) privateKey
                      in ([Log 1, UploadFile file, Log 2] @ evs @
                          [Log 8, Sign new_entry, Log 9, SetEntry publicKey dataKey new_entry sig],
                          setEntry this publicKey dataKey new_entry sig))))"

text \<open>The entries a run signed, and the entries it sent to the registry.\<close>

fun signed_entries :: "event list \<Rightarrow> RegistryEntry_v1 list" where
  "signed_entries [] = []"
| "signed_entries (Sign e # evs) = e # signed_entries evs"
| "signed_entries (_ # evs) = signed_entries evs"

fun sent_entries :: "event list \<Rightarrow> RegistryEntry_v1 list" where
  "sent_entries [] = []"
| "sent_entries (SetEntry _ _ e _ # evs) = e # sent_entries evs"
| "sent_entries (_ # evs) = sent_entries evs"

text \<open>
  A library and a client to run \<open>setJSON\<close> on: a signature is the message followed by the
  key, the public key is the private key, every upload returns the same skylink, and the
  registry holds the entry \<open>stored\<close> under every key. A stored entry is given by the
  revision inside the signed entry, the revision beside it and the signature.
\<close>

definition demoLibrary :: "string library" where
  "demoLibrary =
     \<lparr>stringify = (\<lambda>j. j),
      publicKeyFromPrivateKey = (\<lambda>k. k),
      verify = (\<lambda>m s k. s = m @ k),
      sign = (\<lambda>m k. m @ k),
      HashRegistryEntry = (\<lambda>e. stringToUint8ArrayUtf8 (data_v1 e) @ [word_of_int (revision_v1 e)]),
      trimUriPrefix = (\<lambda>s p. if take (length p) s = p then drop (length p) s else s),
      uriSkynetPrefix = ''sia:''\<rparr>"

definition demoClient :: "SignedEntry option \<Rightarrow> SkynetClient" where
  "demoClient stored =
     \<lparr>uploadFileRequest = (\<lambda>f. Inr ''sia:AAAA''),
      getEntry = (\<lambda>k d. Inr stored),
      setEntry = (\<lambda>k d e s. Inr True)\<rparr>"

definition storedEntry :: "int \<Rightarrow> int \<Rightarrow> bytes \<Rightarrow> SignedEntry" where
  "storedEntry inner outer sig =
     \<lparr>entry = \<lparr>data_v1 = ''BBBB'', revision_v1 = inner\<rparr>, entry_revision = outer,
      signature = sig\<rparr>"

section \<open>BLAKE2b, as the \<open>blakejs\<close> package computes it\<close>

text \<open>
  \<open>crypto.ts\<close> hashes through \<open>blake2bInit\<close>, \<open>blake2bUpdate\<close> and \<open>blake2bFinal\<close> of the
  package \<open>blakejs\<close> (RFC 7693, unkeyed). The context holds the 128-byte input buffer,
  the eight state words, the byte counter, the fill of the buffer and the digest length.
  \<open>blakejs\<close> keeps a 64-bit word as two 32-bit halves; here it is one \<open>64 word\<close>.
  \<open>blake2bInit\<close> throws unless the digest length is between 1 and 64; \<open>crypto.ts\<close>
  asks for 32.
\<close>

record ctx =
  ctx_b :: bytes
  ctx_h :: "u64 list"
  ctx_t :: nat
  ctx_c :: nat
  outlen :: nat

definition BLAKE2B_IV :: "u64 list" where
  "BLAKE2B_IV =
     [0x6a09e667f3bcc908, 0xbb67ae8584caa73b, 0x3c6ef372fe94f82b, 0xa54ff53a5f1d36f1,
      0x510e527fade682d1, 0x9b05688c2b3e6c1f, 0x1f83d9abfb41bd6b, 0x5be0cd19137e2179]"

definition SIGMA8 :: "nat list list" where
  "SIGMA8 =
     [[0, 1, 2, 3, 4, 5, 6, 7, 8, 9, 10, 11, 12, 13, 14, 15],
      [14, 10, 4, 8, 9, 15, 13, 6, 1, 12, 0, 2, 11, 7, 5, 3],
      [11, 8, 12, 0, 5, 2, 15, 13, 10, 14, 3, 6, 7, 1, 9, 4],
      [7, 9, 3, 1, 13, 12, 11, 14, 2, 6, 5, 10, 4, 0, 15, 8],
      [9, 0, 5, 7, 2, 4, 10, 15, 14, 1, 11, 12, 6, 8, 3, 13],
      [2, 12, 6, 10, 0, 11, 8, 3, 4, 13, 7, 5, 15, 14, 1, 9],
      [12, 5, 1, 15, 14, 13, 4, 10, 0, 7, 6, 3, 9, 2, 8, 11],
      [13, 11, 7, 14, 12, 1, 3, 9, 5, 0, 15, 4, 8, 6, 2, 10],
      [6, 15, 14, 9, 11, 3, 0, 8, 12, 2, 13, 7, 1, 4, 10, 5],
      [10, 2, 8, 4, 7, 6, 1, 5, 15, 11, 9, 14, 3, 12, 13, 0],
      [0, 1, 2, 3, 4, 5, 6, 7, 8, 9, 10, 11, 12, 13, 14, 15],
      [14, 10, 4, 8, 9, 15, 13, 6, 1, 12, 0, 2, 11, 7, 5, 3]]"

definition rotr64 :: "nat \<Rightarrow> u64 \<Rightarrow> u64" where
  "rotr64 n x = drop_bit n x OR push_bit (64 - n) (take_bit n x)"

text \<open>The in-place steps of the mixing function: each returns the updated work vector.\<close>

definition ADD64AA :: "u64 list \<Rightarrow> nat \<Rightarrow> nat \<Rightarrow> u64 list" where
  "ADD64AA v i j = v[i := v ! i + v ! j]"

definition ADD64AC :: "u64 list \<Rightarrow> nat \<Rightarrow> u64 \<Rightarrow> u64 list" where
  "ADD64AC v i x = v[i := v ! i + x]"

definition XOR_ROTR :: "u64 list \<Rightarrow> nat \<Rightarrow> nat \<Rightarrow> nat \<Rightarrow> u64 list" where
  "XOR_ROTR v i j n = v[i := rotr64 n (v ! i XOR v ! j)]"

definition B2B_G :: "nat \<Rightarrow> nat \<Rightarrow> nat \<Rightarrow> nat \<Rightarrow> u64 \<Rightarrow> u64 \<Rightarrow> u64 list \<Rightarrow> u64 list" where
  "B2B_G i j k l x y v =
     XOR_ROTR (ADD64AA (XOR_ROTR (ADD64AC (ADD64AA
    (XOR_ROTR (ADD64AA (XOR_ROTR (ADD64AC (ADD64AA v i j) i x) l i 32) k l) j k 24)
       i j) i y) l i 16) k l) j k 63"

definition mix_round :: "u64 list \<Rightarrow> u64 list \<Rightarrow> nat list \<Rightarrow> u64 list" where
  "mix_round m v s =
     B2B_G 3 4 9 14 (m ! (s ! 14)) (m ! (s ! 15))
    (B2B_G 2 7 8 13 (m ! (s ! 12)) (m ! (s ! 13))
    (B2B_G 1 6 11 12 (m ! (s ! 10)) (m ! (s ! 11))
    (B2B_G 0 5 10 15 (m ! (s ! 8)) (m ! (s ! 9))
    (B2B_G 3 7 11 15 (m ! (s ! 6)) (m ! (s ! 7))
    (B2B_G 2 6 10 14 (m ! (s ! 4)) (m ! (s ! 5))
    (B2B_G 1 5 9 13 (m ! (s ! 2)) (m ! (s ! 3))
    (B2B_G 0 4 8 12 (m ! (s ! 0)) (m ! (s ! 1)) v)))))))"

fun B2B_GET64 :: "bytes \<Rightarrow> u64" where
  "B2B_GET64 [] = 0"
| "B2B_GET64 (x # xs) = ucast x OR push_bit 8 (B2B_GET64 xs)"

fun get_words :: "nat \<Rightarrow> bytes \<Rightarrow> u64 list" where
  "get_words 0 bs = []"
| "get_words (Suc n) bs = B2B_GET64 (take 8 bs) # get_words n (drop 8 bs)"

definition last_block_flag :: "bool \<Rightarrow> u64 list \<Rightarrow> u64 list" where
  "last_block_flag final v = (if final then v[14 := NOT (v ! 14)] else v)"

definition work_vector :: "ctx \<Rightarrow> bool \<Rightarrow> u64 list" where
  "work_vector cx final =
     last_block_flag final
       ((ctx_h cx @ BLAKE2B_IV)[12 := (ctx_h cx @ BLAKE2B_IV) ! 12 XOR word_of_nat (ctx_t cx)])"

definition fold_state :: "u64 list \<Rightarrow> u64 list \<Rightarrow> u64 list" where
  "fold_state hs v = map (\<lambda>i. hs ! i XOR v ! i XOR v ! (i + 8)) [0..<8]"

definition blake2bCompress :: "ctx \<Rightarrow> bool \<Rightarrow> ctx" where
  "blake2bCompress cx final =
     cx\<lparr>ctx_h := fold_state (ctx_h cx)
        (foldl (mix_round (get_words 16 (ctx_b cx))) (work_vector cx final) SIGMA8)\<rparr>"

definition blake2bInit :: "nat \<Rightarrow> ctx" where
  "blake2bInit n =
     \<lparr>ctx_b = replicate 128 0,
      ctx_h = BLAKE2B_IV[0 := BLAKE2B_IV ! 0 XOR 0x01010000 XOR word_of_nat n],
      ctx_t = 0, ctx_c = 0, outlen = n\<rparr>"

text \<open>
  \<open>blake2bUpdate\<close> feeds the input byte by byte; a full buffer is compressed before the
  next byte is stored.
\<close>

definition flush_full :: "ctx \<Rightarrow> ctx" where
  "flush_full cx =
     (if ctx_c cx = 128
      then (blake2bCompress (cx\<lparr>ctx_t := ctx_t cx + ctx_c cx\<rparr>) False)\<lparr>ctx_c := 0\<rparr>
      else cx)"

definition store_byte :: "byte \<Rightarrow> ctx \<Rightarrow> ctx" where
  "store_byte x cx = cx\<lparr>ctx_b := (ctx_b cx)[ctx_c cx := x], ctx_c := ctx_c cx + 1\<rparr>"

definition update_byte :: "ctx \<Rightarrow> byte \<Rightarrow> ctx" where
  "update_byte cx x = store_byte x (flush_full cx)"

definition blake2bUpdate :: "ctx \<Rightarrow> bytes \<Rightarrow> ctx" where
  "blake2bUpdate cx input = foldl update_byte cx input"

definition bytes_of_u64 :: "u64 \<Rightarrow> bytes" where
  "bytes_of_u64 w = map (\<lambda>i. ucast (drop_bit (8 * i) w)) [0..<8]"

definition pad_block :: "ctx \<Rightarrow> ctx" where
  "pad_block cx =
     cx\<lparr>ctx_t := ctx_t cx + ctx_c cx,
        ctx_b := take (ctx_c cx) (ctx_b cx) @ replicate (128 - ctx_c cx) 0,
        ctx_c := 128\<rparr>"

definition digest_bytes :: "ctx \<Rightarrow> bytes" where
  "digest_bytes cx = take (outlen cx) (concat (map bytes_of_u64 (ctx_h cx)))"

definition blake2bFinal :: "ctx \<Rightarrow> bytes" where
  "blake2bFinal cx = digest_bytes (blake2bCompress (pad_block cx) True)"

text \<open>The one-shot hash \<open>blake2b(input, null, outlen)\<close> of the same package.\<close>

definition blake2b :: "nat \<Rightarrow> bytes \<Rightarrow> bytes" where
  "blake2b n input = blake2bFinal (blake2bUpdate (blake2bInit n) input)"

text \<open>
  The state words after hashing a message of at most 128 bytes, which is compressed as a
  single final block.
\<close>

definition one_block :: "nat \<Rightarrow> bytes \<Rightarrow> u64 list" where
  "one_block n xs =
     fold_state (ctx_h (blake2bInit n))
       (foldl (mix_round (get_words 16 (xs @ replicate (128 - length xs) 0)))
          (last_block_flag True
             ((ctx_h (blake2bInit n) @ BLAKE2B_IV)
                [12 := (ctx_h (blake2bInit n) @ BLAKE2B_IV) ! 12 XOR word_of_nat (length xs)]))
          SIGMA8)"

section \<open>\<open>src/crypto.ts\<close>\<close>

text \<open>
  \<open>crypto.ts\<close> imports \<open>encodeUtf8String\<close>, \<open>encodePrefixedBytes\<close> and
  \<open>encodeBigintAsUint64\<close> from \<open>src/utils/encoding\<close>, which is not among the sources.
  They are taken as a parameter \<open>E\<close> of every function that calls them, so that what is
  proved of \<open>crypto.ts\<close> holds whatever these helpers compute. Only
  \<open>encodeBigintAsUint64\<close> is given a way to throw: its argument is an unbounded
  \<open>bigint\<close>.
\<close>

record encoding =
  encodeUtf8String :: "string \<Rightarrow> bytes"
  encodePrefixedBytes :: "bytes \<Rightarrow> bytes"
  encodeBigintAsUint64 :: "int \<Rightarrow> error + bytes"

text \<open>
  Modelled from the spec: the encoders of \<open>src/utils/encoding\<close> as the spec describes
  them. \<open>encodeUtf8String\<close> is \<open>utf8(s)\<close>; the data is length-prefixed; the revision is
  a fixed-width 64-bit integer. The spec leaves the width of the prefix and the byte
  order open: eight bytes, least significant first, are taken here.
\<close>

definition encodeNumber :: "nat \<Rightarrow> bytes" where
  "encodeNumber n = map (\<lambda>i. word_of_nat (n div 256 ^ i)) [0..<8]"

definition specEncoding :: encoding where
  "specEncoding =
     \<lparr>encodeUtf8String = stringToUint8ArrayUtf8,
      encodePrefixedBytes = (\<lambda>d. encodeNumber (length d) @ d),
      encodeBigintAsUint64 =
        (\<lambda>n. if 0 \<le> n \<and> n < 2 ^ 64 then Inr (encodeNumber (nat n))
             else Inl (ValidationError ''int''))\<rparr>"

text \<open>
  The encoders of \<open>src/utils/encoding\<close> as the repository has them; the module is not
  among the sources. They differ from the reading above in \<open>encodeUtf8String\<close>, which
  writes the number of bytes of the UTF-8 text, as eight bytes with the least significant
  first, and then the text.
\<close>

definition lengthPrefixedEncoding :: encoding where
  "lengthPrefixedEncoding =
     \<lparr>encodeUtf8String =
        (\<lambda>s. encodeNumber (length (stringToUint8ArrayUtf8 s)) @ stringToUint8ArrayUtf8 s),
      encodePrefixedBytes = (\<lambda>d. encodeNumber (length d) @ d),
      encodeBigintAsUint64 =
        (\<lambda>n. if 0 \<le> n \<and> n < 2 ^ 64 then Inr (encodeNumber (nat n))
             else Inl (ValidationError ''int''))\<rparr>"

text \<open>A thrown error ends the computation: the rest runs on a returned value only.\<close>

definition and_then :: "error + 'a \<Rightarrow> ('a \<Rightarrow> error + 'b) \<Rightarrow> error + 'b" where
  "and_then r f = (case r of Inl e \<Rightarrow> Inl e | Inr x \<Rightarrow> f x)"

definition HASH_LENGTH :: nat where
  "HASH_LENGTH = 32"

definition newHash :: ctx where
  "newHash = blake2bInit HASH_LENGTH"

definition hashAll :: "bytes list \<Rightarrow> bytes" where
  "hashAll args = blake2bFinal (foldl blake2bUpdate newHash args)"

text \<open>
  \<open>deriveChildSeed\<close> first calls \<open>validateString\<close> on both arguments, which throws
  unless the argument is a string; the arguments are strings by their type here.
\<close>

definition deriveChildSeed :: "encoding \<Rightarrow> string \<Rightarrow> string \<Rightarrow> string" where
  "deriveChildSeed E masterSeed seed =
     toHexString (hashAll [encodeUtf8String E masterSeed, encodeUtf8String E seed])"

definition hashDataKey :: "encoding \<Rightarrow> string \<Rightarrow> bytes" where
  "hashDataKey E dataKey = hashAll [encodeUtf8String E dataKey]"

record RegistryEntry =
  dataKey :: string
  data :: bytes
  revision :: int

definition hashRegistryEntry :: "encoding \<Rightarrow> RegistryEntry \<Rightarrow> bool \<Rightarrow> error + bytes" where
  "hashRegistryEntry E registryEntry hashedDataKeyHex =
     and_then
       (if hashedDataKeyHex then hexToUint8Array (dataKey registryEntry)
        else Inr (hashDataKey E (dataKey registryEntry)))
       (\<lambda>dataKeyBytes.
          and_then (encodeBigintAsUint64 E (revision registryEntry))
            (\<lambda>revisionBytes.
               Inr (hashAll [dataKeyBytes, encodePrefixedBytes E (data registryEntry),
                             revisionBytes])))"

text \<open>
  The canonical form of spec section 4.6, as the claim reads it: the hash of the data key
  bytes, the length-prefixed data and the 64-bit revision, where the data key bytes are the
  decoded hexadecimal text or else the UTF-8 bytes of the data key itself.
\<close>

definition canonicalHash_claimed :: "encoding \<Rightarrow> RegistryEntry \<Rightarrow> bool \<Rightarrow> error + bytes" where
  "canonicalHash_claimed E e hashed =
     and_then
       (if hashed then hexToUint8Array (dataKey e) else Inr (stringToUint8ArrayUtf8 (dataKey e)))
       (\<lambda>dk. and_then (encodeBigintAsUint64 E (revision e))
          (\<lambda>revisionBytes. Inr (blake2b HASH_LENGTH (dk @ encodePrefixedBytes E (data e) @ revisionBytes))))"

text \<open>The canonical form the code computes: the data key is hashed unless it is hexadecimal already.\<close>

definition canonicalHash :: "encoding \<Rightarrow> RegistryEntry \<Rightarrow> bool \<Rightarrow> error + bytes" where
  "canonicalHash E e hashed =
     and_then
       (if hashed then hexToUint8Array (dataKey e)
        else Inr (blake2b HASH_LENGTH (encodeUtf8String E (dataKey e))))
       (\<lambda>dk. and_then (encodeBigintAsUint64 E (revision e))
          (\<lambda>revisionBytes. Inr (blake2b HASH_LENGTH (dk @ encodePrefixedBytes E (data e) @ revisionBytes))))"

section \<open>\<open>MySky.New\<close> (\<open>src/mysky/index.ts\<close>)\<close>

text \<open>
  A \<open>MySky\<close> object holds its connector, its permissions and its domain. The connector
  comes from \<open>Connector.init\<close>, which is not among the sources: its type is a parameter.
  \<open>Permission\<close>, \<open>PermCategory\<close> and \<open>PermType\<close> are those of the package
  \<open>skynet-interface-utils\<close>.
\<close>

datatype PermCategory = Discoverable | Hidden | LegacySkyID

datatype PermType = Read | Write

datatype Permission = Permission string string PermCategory PermType

record 'conn MySky =
  connector :: 'conn
  permissions :: "Permission list"
  domain :: string

text \<open>
  \<open>New\<close> is an \<open>async\<close> function. It runs to its first \<open>await\<close> when it is called,
  and each \<open>await\<close> hands control back to the event loop until the awaited promise
  settles; other calls may run in between. A call that is under way is either waiting for
  \<open>Connector.init\<close>, or holds the connector and waits for \<open>client.extractDomain\<close>, or has
  settled. The process state is the static field \<open>MySky.instance\<close>, the calls made so far
  (a call is known by its position), and, to count them, the objects built with
  \<open>new MySky\<close> so far.
\<close>

datatype 'conn call = AwaitConnector string | AwaitDomain string 'conn | Settled

record 'conn process =
  MySky_instance :: "'conn MySky option"
  calls :: "'conn call list"
  constructed :: "'conn MySky list"

datatype 'conn outcome = Threw error | Returned "'conn MySky"

text \<open>
  The turns of the event loop: a call of \<open>MySky.New(client, skappDomain, customOptions)\<close>,
  the promise of \<open>Connector.init\<close> settling for call \<open>i\<close>, and the promise of
  \<open>client.extractDomain\<close> settling for call \<open>i\<close>. A turn returns the new state and, when
  the call settles in it, how.
\<close>

datatype 'conn turn =
  Call string
| ConnectorInit nat "error + 'conn"
| ExtractDomain nat "error + string"

definition call_New :: "'conn process \<Rightarrow> string \<Rightarrow> 'conn process \<times> 'conn outcome option" where
  "call_New p skappDomain =
     (if MySky_instance p \<noteq> None
      then (p\<lparr>calls := calls p @ [Settled]\<rparr>, Some (Threw (Error ''MySky was already loaded.'')))
      else (p\<lparr>calls := calls p @ [AwaitConnector skappDomain]\<rparr>, None))"

definition connector_settled ::
  "'conn process \<Rightarrow> nat \<Rightarrow> error + 'conn \<Rightarrow> 'conn process \<times> 'conn outcome option" where
  "connector_settled p i r =
     (if i < length (calls p) then
        (case calls p ! i of
           AwaitConnector skappDomain \<Rightarrow>
             (case r of
                Inl e \<Rightarrow> (p\<lparr>calls := (calls p)[i := Settled]\<rparr>, Some (Threw e))
              | Inr c \<Rightarrow> (p\<lparr>calls := (calls p)[i := AwaitDomain skappDomain c]\<rparr>, None))
         | _ \<Rightarrow> (p, None))
      else (p, None))"

definition domain_settled ::
  "'conn process \<Rightarrow> nat \<Rightarrow> error + string \<Rightarrow> 'conn process \<times> 'conn outcome option" where
  "domain_settled p i r =
     (if i < length (calls p) then
        (case calls p ! i of
           AwaitDomain skappDomain c \<Rightarrow>
             (case r of
                Inl e \<Rightarrow> (p\<lparr>calls := (calls p)[i := Settled]\<rparr>, Some (Threw e))
              | Inr d \<Rightarrow>
                  (p\<lparr>MySky_instance :=
                       Some \<lparr>connector = c,
                             permissions = [Permission d skappDomain Hidden Write],
                             domain = d\<rparr>,
                     calls := (calls p)[i := Settled],
                     constructed := constructed p @
                       [\<lparr>connector = c,
                         permissions = [Permission d skappDomain Hidden Write],
                         domain = d\<rparr>]\<rparr>,
                   Some (Returned \<lparr>connector = c,
                                   permissions = [Permission d skappDomain Hidden Write],
                                   domain = d\<rparr>)))
         | _ \<Rightarrow> (p, None))
      else (p, None))"

fun step :: "'conn process \<Rightarrow> 'conn turn \<Rightarrow> 'conn process \<times> 'conn outcome option" where
  "step p (Call skappDomain) = call_New p skappDomain"
| "step p (ConnectorInit i r) = connector_settled p i r"
| "step p (ExtractDomain i r) = domain_settled p i r"

fun run :: "'conn process \<Rightarrow> 'conn turn list \<Rightarrow> 'conn process \<times> 'conn outcome list" where
  "run p [] = (p, [])"
| "run p (s # ss) =
     (case step p s of
        (p', None) \<Rightarrow> run p' ss
      | (p', Some out) \<Rightarrow> (case run p' ss of (p'', outs) \<Rightarrow> (p'', out # outs)))"

definition start :: "'conn process" where
  "start = \<lparr>MySky_instance = None, calls = [], constructed = []\<rparr>"

text \<open>
  A call that is awaited before anything else runs: its three steps in a row, given what
  \<open>Connector.init\<close> and \<open>client.extractDomain\<close> settle to.
\<close>

definition New ::
  "'conn process \<Rightarrow> string \<Rightarrow> error + 'conn \<Rightarrow> error + string \<Rightarrow> 'conn process \<times> 'conn outcome list" where
  "New p skappDomain initResult domainResult =
     run p [Call skappDomain,
            ConnectorInit (length (calls p)) initResult,
            ExtractDomain (length (calls p)) domainResult]"

text \<open>Calls made one after the other, each awaited before the next is made.\<close>

fun New_each ::
  "'conn process \<Rightarrow> (string \<times> (error + 'conn) \<times> (error + string)) list \<Rightarrow> 'conn process" where
  "New_each p [] = p"
| "New_each p ((skappDomain, initResult, domainResult) # rest) =
     New_each (fst (New p skappDomain initResult domainResult)) rest"

section \<open>The path seed hierarchy (spec section 4.3)\<close>

text \<open>
  Modelled from the spec: \<open>deriveEncryptedPathSeed\<close> of \<open>src/mysky/encrypted_files\<close>, of
  which only the tests are among the sources (\<open>src/unnamed/part_002\<close>). The spec's
  words: the path seed must be 128 hexadecimal characters; the sub path is split on \<open>/\<close>
  and its empty segments are dropped, and at least one must remain; each segment but the
  last derives the next 64-byte directory seed as the hash of the current seed bytes and
  the UTF-8 bytes of the segment, in full width; the last segment derives the same way, and
  the result is returned in hexadecimal, in full for a directory and cut to its first 32
  bytes for a file. The wide hash is a parameter: the spec asks for 64 bytes of output and
  leaves the construction open. The tests fix the order of the checks: a bad path seed is
  reported before an empty sub path.
\<close>

fun split_slash :: "string \<Rightarrow> string \<Rightarrow> string list" where
  "split_slash cur [] = [cur]"
| "split_slash cur (ch # rest) =
     (if ch = CHR ''/'' then cur # split_slash [] rest else split_slash (cur @ [ch]) rest)"

definition path_segments :: "string \<Rightarrow> string list" where
  "path_segments subPath = filter (\<lambda>name. name \<noteq> []) (split_slash [] subPath)"

definition derive_segment :: "(bytes \<Rightarrow> bytes) \<Rightarrow> bytes \<Rightarrow> string \<Rightarrow> bytes" where
  "derive_segment wide seedBytes name = wide (seedBytes @ stringToUint8ArrayUtf8 name)"

definition deriveEncryptedPathSeed ::
  "(bytes \<Rightarrow> bytes) \<Rightarrow> string \<Rightarrow> string \<Rightarrow> bool \<Rightarrow> error + string" where
  "deriveEncryptedPathSeed wide pathSeed subPath isDirectory =
     (if \<not> isHexString pathSeed \<or> length pathSeed \<noteq> 128 then Inl (ValidationError ''pathSeed'')
      else and_then (hexToUint8Array pathSeed)
        (\<lambda>pathSeedBytes.
           case path_segments subPath of
             [] \<Rightarrow> Inl (ValidationError ''subPath'')
           | name # names \<Rightarrow>
               Inr (toHexString
                 ((if isDirectory then (\<lambda>leaf. leaf) else take 32)
                    (derive_segment wide
                       (foldl (derive_segment wide) pathSeedBytes (butlast (name # names)))
                       (last (name # names)))))))"

section \<open>Hexadecimal text: decoding undoes encoding\<close>

lemma hex_value_hex_digit: "n < 16 \<Longrightarrow> hex_value (hex_digit n) = Some n"
  by (auto simp add: hex_value_def hex_digit_def Let_def)

lemma hex_nibble_hex_digit: "n < 16 \<Longrightarrow> hex_nibble (hex_digit n) = n"
  by (simp add: hex_nibble_def hex_value_hex_digit)

lemma hex_bytes_toHexString: "hex_bytes (toHexString bs) = bs"
proof (induction bs)
  case Nil
  then show ?case by (simp add: toHexString_def)
next
  case (Cons x xs)
  have hi: "unat x div 16 < 16"
    using unsigned_less [of x, where 'a = nat] by (simp add: less_mult_imp_div_less)
  have lo: "unat x mod 16 < 16" by simp
  have "toHexString (x # xs) = hex_digit (unat x div 16) # hex_digit (unat x mod 16) # toHexString xs"
    by (simp add: toHexString_def)
  then have "hex_bytes (toHexString (x # xs)) = word_of_nat (unat x div 16 * 16 + unat x mod 16) # xs"
    using Cons.IH by (simp add: hex_nibble_hex_digit [OF hi] hex_nibble_hex_digit [OF lo])
  then show ?case by simp
qed

lemma isHexString_toHexString: "isHexString (toHexString bs)"
proof (induction bs)
  case Nil
  then show ?case by (simp add: toHexString_def isHexString_def)
next
  case (Cons x xs)
  have hi: "unat x div 16 < 16"
    using unsigned_less [of x, where 'a = nat] by (simp add: less_mult_imp_div_less)
  have lo: "unat x mod 16 < 16" by simp
  from Cons show ?case
    by (simp add: toHexString_def isHexString_def hex_value_hex_digit [OF hi] hex_value_hex_digit [OF lo])
qed

lemma hexToUint8Array_toHexString: "hexToUint8Array (toHexString bs) = Inr bs"
  by (simp add: hexToUint8Array_def isHexString_toHexString hex_bytes_toHexString)

lemma length_toHexString: "length (toHexString bs) = 2 * length bs"
  by (induction bs) (simp_all add: toHexString_def)

lemma toHexString_eq_iff: "toHexString xs = toHexString ys \<longleftrightarrow> xs = ys"
  by (metis hex_bytes_toHexString)

section \<open>BLAKE2b: streaming, and messages of one block\<close>

text \<open>\<open>rotr64\<close> is the rotation to the right of a 64-bit word.\<close>

lemma rotr64_word_rotr: "n \<le> 64 \<Longrightarrow> rotr64 n x = word_rotr n x"
proof (rule bit_word_eqI)
  fix k
  assume n: "n \<le> 64" and k: "k < LENGTH(64)"
  show "bit (rotr64 n x) k = bit (word_rotr n x) k"
  proof (cases "n + k < 64")
    case True
    then have "(k + n) mod 64 = n + k" and "\<not> 64 - n \<le> k"
      by simp_all
    with k show ?thesis
      by (simp add: rotr64_def bit_word_rotr_iff bit_drop_bit_eq bit_push_bit_iff bit_take_bit_iff
          bit_or_iff add.commute)
  next
    case False
    then have m: "(k + n) mod 64 = k + n - 64"
      using n k by (simp add: mod_if)
    have "\<not> bit x (n + k)"
      using False bit_imp_le_length [of x "n + k"] by auto
    moreover have "k - (64 - n) = k + n - 64" and "64 - n \<le> k" and "k + n - 64 < n"
      using False n k by simp_all
    ultimately show ?thesis
      using False n k
      by (simp add: rotr64_def bit_word_rotr_iff bit_drop_bit_eq bit_push_bit_iff bit_take_bit_iff bit_or_iff m)
  qed
qed

text \<open>Feeding the input in pieces is feeding their concatenation.\<close>

lemma blake2bUpdate_append:
  "blake2bUpdate cx (xs @ ys) = blake2bUpdate (blake2bUpdate cx xs) ys"
  by (simp add: blake2bUpdate_def)

lemma foldl_blake2bUpdate:
  "foldl blake2bUpdate cx args = blake2bUpdate cx (concat args)"
  by (induction args arbitrary: cx) (simp_all add: blake2bUpdate_def)

lemma hashAll_concat: "hashAll args = blake2b HASH_LENGTH (concat args)"
  by (simp add: hashAll_def blake2b_def newHash_def foldl_blake2bUpdate)

lemma flush_full_id: "ctx_c cx < 128 \<Longrightarrow> flush_full cx = cx"
  by (simp add: flush_full_def)

lemma blake2bUpdate_short:
  "length xs \<le> 128 \<Longrightarrow> ctx_c cx = 0 \<Longrightarrow> length (ctx_b cx) = 128 \<Longrightarrow>
   blake2bUpdate cx xs = cx\<lparr>ctx_b := xs @ drop (length xs) (ctx_b cx), ctx_c := length xs\<rparr>"
proof (induction xs rule: rev_induct)
  case Nil
  then show ?case by (simp add: blake2bUpdate_def)
next
  case (snoc x xs)
  then have IH: "blake2bUpdate cx xs = cx\<lparr>ctx_b := xs @ drop (length xs) (ctx_b cx), ctx_c := length xs\<rparr>"
    by simp
  have lt: "length xs < 128" using snoc.prems by simp
  have "blake2bUpdate cx (xs @ [x]) = update_byte (blake2bUpdate cx xs) x"
    by (simp add: blake2bUpdate_def)
  also have "\<dots> = store_byte x (cx\<lparr>ctx_b := xs @ drop (length xs) (ctx_b cx), ctx_c := length xs\<rparr>)"
    using lt by (simp add: IH update_byte_def flush_full_id)
  also have "\<dots> = cx\<lparr>ctx_b := (xs @ [x]) @ drop (length (xs @ [x])) (ctx_b cx), ctx_c := length (xs @ [x])\<rparr>"
  proof -
    have "drop (length xs) (ctx_b cx) = ctx_b cx ! length xs # drop (Suc (length xs)) (ctx_b cx)"
      using lt snoc.prems(3) by (simp add: Cons_nth_drop_Suc)
    then have "(xs @ drop (length xs) (ctx_b cx))[length xs := x] = xs @ x # drop (Suc (length xs)) (ctx_b cx)"
      by (simp add: list_update_append)
    then show ?thesis by (simp add: store_byte_def)
  qed
  finally show ?case .
qed

lemma pad_block_short:
  "length xs \<le> 128 \<Longrightarrow>
   pad_block (blake2bUpdate (blake2bInit n) xs) =
     (blake2bInit n)\<lparr>ctx_t := length xs, ctx_b := xs @ replicate (128 - length xs) 0, ctx_c := 128\<rparr>"
proof -
  assume len: "length xs \<le> 128"
  have "blake2bUpdate (blake2bInit n) xs =
          (blake2bInit n)\<lparr>ctx_b := xs @ drop (length xs) (ctx_b (blake2bInit n)), ctx_c := length xs\<rparr>"
    using len by (intro blake2bUpdate_short) (simp_all add: blake2bInit_def)
  then show ?thesis
    by (simp add: pad_block_def blake2bInit_def)
qed

lemma blake2b_short:
  "length xs \<le> 128 \<Longrightarrow> blake2b n xs = take n (concat (map bytes_of_u64 (one_block n xs)))"
  by (simp add: blake2b_def blake2bFinal_def pad_block_short blake2bCompress_def work_vector_def
      digest_bytes_def one_block_def) (simp add: blake2bInit_def)

text \<open>The digest has the length asked for.\<close>

lemma outlen_blake2bUpdate: "outlen (blake2bUpdate cx xs) = outlen cx"
proof (induction xs rule: rev_induct)
  case Nil
  then show ?case by (simp add: blake2bUpdate_def)
next
  case (snoc x xs)
  then show ?case
    by (simp add: blake2bUpdate_def update_byte_def store_byte_def flush_full_def blake2bCompress_def)
qed

lemma length_blake2b: "n \<le> 64 \<Longrightarrow> length (blake2b n xs) = n"
proof -
  assume n: "n \<le> 64"
  have h: "length (ctx_h (blake2bCompress cx final)) = 8" for cx :: ctx and final
    by (simp add: blake2bCompress_def fold_state_def)
  have w: "length (concat (map bytes_of_u64 hs)) = 8 * length hs" for hs
    by (induction hs) (simp_all add: bytes_of_u64_def)
  have "outlen (blake2bCompress (pad_block (blake2bUpdate (blake2bInit n) xs)) True) = n"
    by (simp add: blake2bCompress_def pad_block_def outlen_blake2bUpdate) (simp add: blake2bInit_def)
  then show ?thesis
    using n by (simp add: blake2b_def blake2bFinal_def digest_bytes_def w h)
qed

text \<open>Equations that let the simplifier compute a digest on numerals.\<close>

lemma get_words_numeral:
  "get_words (numeral k) bs = B2B_GET64 (take 8 bs) # get_words (pred_numeral k) (drop 8 bs)"
  by (simp add: numeral_eq_Suc)

lemma get_words_1: "get_words 1 bs = [B2B_GET64 (take 8 bs)]"
  by simp

lemma B2B_GET64_zeros: "B2B_GET64 (replicate k 0) = 0"
  by (induction k) simp_all

lemma last_block_flag_True: "last_block_flag True v = v[14 := v ! 14 XOR 0xFFFFFFFFFFFFFFFF]"
proof -
  have "NOT x = x XOR 0xFFFFFFFFFFFFFFFF" for x :: u64
  proof -
    have "(0xFFFFFFFFFFFFFFFF :: u64) = - 1" by simp
    then show ?thesis by (simp only: bit.xor_one_right)
  qed
  then show ?thesis by (simp add: last_block_flag_def)
qed

lemma fold_state_eval:
  "fold_state hs v = [hs ! 0 XOR v ! 0 XOR v ! 8, hs ! 1 XOR v ! 1 XOR v ! 9, hs ! 2 XOR v ! 2 XOR v ! 10,
     hs ! 3 XOR v ! 3 XOR v ! 11, hs ! 4 XOR v ! 4 XOR v ! 12, hs ! 5 XOR v ! 5 XOR v ! 13,
     hs ! 6 XOR v ! 6 XOR v ! 14, hs ! 7 XOR v ! 7 XOR v ! 15]"
  by (simp add: fold_state_def upt_rec eval_nat_numeral)

lemma bytes_of_u64_eval:
  "bytes_of_u64 w = [ucast w, ucast (drop_bit 8 w), ucast (drop_bit 16 w), ucast (drop_bit 24 w),
     ucast (drop_bit 32 w), ucast (drop_bit 40 w), ucast (drop_bit 48 w), ucast (drop_bit 56 w)]"
  by (simp add: bytes_of_u64_def upt_rec eval_nat_numeral)

lemmas blake2b_eval = blake2b_short one_block_def get_words_numeral get_words_1 B2B_GET64_zeros
  last_block_flag_True fold_state_eval bytes_of_u64_eval blake2bInit_def
  mix_round_def B2B_G_def XOR_ROTR_def ADD64AC_def ADD64AA_def rotr64_def SIGMA8_def BLAKE2B_IV_def

text \<open>
  Known digests. The first is the BLAKE2b-256 digest of \<open>abc\<close>,
  \<open>bddd813c...d52319\<close>, which checks the model against the reference
  implementation.
\<close>

lemma blake2b_256_abc:
  "blake2b 32 [0x61, 0x62, 0x63] =
     [189, 221, 129, 60, 99, 66, 57, 114, 49, 113, 239, 63, 238, 152, 87, 155,
      148, 150, 78, 59, 177, 203, 62, 66, 114, 98, 200, 192, 104, 213, 35, 25]"
  by (simp add: blake2b_eval)

lemma blake2b_256_a:
  "blake2b 32 [0x61] =
     [137, 40, 170, 230, 60, 132, 216, 126, 160, 152, 86, 77, 30, 3, 173, 129,
      63, 16, 122, 221, 71, 78, 86, 174, 221, 40, 99, 73, 192, 192, 62, 164]"
  by (simp add: blake2b_eval)

lemma blake2b_256_hashed_key:
  "blake2b 32
     ([137, 40, 170, 230, 60, 132, 216, 126, 160, 152, 86, 77, 30, 3, 173, 129,
       63, 16, 122, 221, 71, 78, 86, 174, 221, 40, 99, 73, 192, 192, 62, 164] @ replicate 16 0) =
     [60, 208, 30, 211, 87, 97, 105, 72, 98, 137, 190, 247, 58, 141, 110, 226,
      170, 210, 40, 208, 143, 113, 64, 60, 97, 111, 196, 15, 89, 225, 142, 25]"
  by (simp add: blake2b_eval)

lemma blake2b_256_raw_key:
  "blake2b 32 (0x61 # replicate 16 0) =
     [53, 97, 88, 126, 216, 84, 59, 61, 210, 94, 15, 50, 217, 181, 179, 37,
      25, 247, 85, 111, 81, 210, 9, 185, 200, 170, 49, 134, 50, 127, 112, 68]"
  by (simp add: blake2b_eval)

lemma blake2b_256_ab_c:
  "blake2b 32 [2, 0, 0, 0, 0, 0, 0, 0, 97, 98, 1, 0, 0, 0, 0, 0, 0, 0, 99] =
     [32, 38, 62, 121, 71, 117, 228, 237, 242, 179, 6, 192, 243, 6, 175, 158,
      80, 23, 92, 131, 28, 133, 118, 4, 180, 129, 232, 71, 247, 144, 191, 149]"
  by (simp add: blake2b_eval)

lemma blake2b_256_a_bc:
  "blake2b 32 [1, 0, 0, 0, 0, 0, 0, 0, 97, 2, 0, 0, 0, 0, 0, 0, 0, 98, 99] =
     [119, 187, 202, 183, 7, 43, 137, 124, 84, 131, 39, 55, 143, 17, 119, 111,
      72, 83, 16, 76, 113, 189, 185, 90, 18, 222, 213, 210, 120, 53, 35, 191]"
  by (simp add: blake2b_eval)

section \<open>\<open>src/crypto.ts\<close>: what is hashed\<close>

lemma stringToUint8ArrayUtf8_a: "stringToUint8ArrayUtf8 ''a'' = [0x61]"
  by (simp add: stringToUint8ArrayUtf8_def utf8_char_def)

lemma encodeNumber_0: "encodeNumber 0 = replicate 8 0"
  by (simp add: encodeNumber_def upt_rec eval_nat_numeral)

text \<open>
  Claim C2, as the spec states it: for every entry and flag, \<open>hashRegistryEntry\<close> is the
  hash of the data key bytes, the length-prefixed data and the 64-bit revision, the data key
  bytes being the UTF-8 bytes of the data key when the flag is false. This fails: for the
  data key \<open>a\<close>, empty data and revision 0 the code hashes the 32-byte digest of the data
  key, and the two digests differ (\<open>3cd01ed3...\<close> against \<open>3561587e...\<close>).
\<close>

theorem hashRegistryEntry_raw_key_counterexample:
  "hashRegistryEntry specEncoding \<lparr>dataKey = ''a'', data = [], revision = 0\<rparr> False
     \<noteq> canonicalHash_claimed specEncoding \<lparr>dataKey = ''a'', data = [], revision = 0\<rparr> False"
proof -
  have zeros: "replicate 8 0 @ replicate 8 0 = replicate 16 (0::byte)"
    by (simp flip: replicate_add)
  have "hashRegistryEntry specEncoding \<lparr>dataKey = ''a'', data = [], revision = 0\<rparr> False =
      Inr (blake2b 32 (blake2b 32 [0x61] @ replicate 16 0))"
    by (simp add: hashRegistryEntry_def hashDataKey_def and_then_def specEncoding_def
        hashAll_concat HASH_LENGTH_def stringToUint8ArrayUtf8_a encodeNumber_0 zeros)
  then have code: "hashRegistryEntry specEncoding \<lparr>dataKey = ''a'', data = [], revision = 0\<rparr> False =
      Inr [60, 208, 30, 211, 87, 97, 105, 72, 98, 137, 190, 247, 58, 141, 110, 226,
           170, 210, 40, 208, 143, 113, 64, 60, 97, 111, 196, 15, 89, 225, 142, 25]"
    by (simp only: blake2b_256_a blake2b_256_hashed_key)
  have "canonicalHash_claimed specEncoding \<lparr>dataKey = ''a'', data = [], revision = 0\<rparr> False =
      Inr (blake2b 32 (0x61 # replicate 16 0))"
    by (simp add: canonicalHash_claimed_def and_then_def specEncoding_def
        HASH_LENGTH_def stringToUint8ArrayUtf8_a encodeNumber_0 zeros)
  then have claimed: "canonicalHash_claimed specEncoding \<lparr>dataKey = ''a'', data = [], revision = 0\<rparr> False =
      Inr [53, 97, 88, 126, 216, 84, 59, 61, 210, 94, 15, 50, 217, 181, 179, 37,
           25, 247, 85, 111, 81, 210, 9, 185, 200, 170, 49, 134, 50, 127, 112, 68]"
    by (simp only: blake2b_256_raw_key)
  show ?thesis
    unfolding code claimed by simp
qed

text \<open>
  Claim C2, amended: for every entry and flag, \<open>hashRegistryEntry\<close> is the BLAKE2b-256
  hash of the concatenation of the data key bytes, the length-prefixed data and the encoded
  revision, where the data key bytes are the decoded hexadecimal text of the data key when
  the flag is true and the 32-byte hash of the encoded data key when it is false. An error
  of the hexadecimal decoder or of the revision encoder is passed on.
\<close>

theorem hashRegistryEntry_canonical:
  "hashRegistryEntry E e hashed = canonicalHash E e hashed"
  by (simp add: hashRegistryEntry_def canonicalHash_def hashDataKey_def hashAll_concat)

lemma upt_0_8: "[0..<8] = [0, 1, 2, 3, 4, 5, 6, 7::nat]"
  by (simp add: upt_rec)

lemma encodeNumber_1: "encodeNumber 1 = [1, 0, 0, 0, 0, 0, 0, 0]"
  unfolding encodeNumber_def upt_0_8 by simp

lemma encodeNumber_2: "encodeNumber 2 = [2, 0, 0, 0, 0, 0, 0, 0]"
  unfolding encodeNumber_def upt_0_8 by simp

lemma encodeNumber_Suc:
  "encodeNumber (Suc 0) = [1, 0, 0, 0, 0, 0, 0, 0]"
  "encodeNumber (Suc (Suc 0)) = [2, 0, 0, 0, 0, 0, 0, 0]"
  using encodeNumber_1 encodeNumber_2 by (simp_all add: numeral_2_eq_2)

lemma stringToUint8ArrayUtf8_abc:
  "stringToUint8ArrayUtf8 ''ab'' = [97, 98]"
  "stringToUint8ArrayUtf8 ''c'' = [99]"
  "stringToUint8ArrayUtf8 ''bc'' = [98, 99]"
  by (simp_all add: stringToUint8ArrayUtf8_def utf8_char_def)

lemma encodeUtf8String_lengthPrefixed:
  "encodeUtf8String lengthPrefixedEncoding ''ab'' = [2, 0, 0, 0, 0, 0, 0, 0, 97, 98]"
  "encodeUtf8String lengthPrefixedEncoding ''c'' = [1, 0, 0, 0, 0, 0, 0, 0, 99]"
  "encodeUtf8String lengthPrefixedEncoding ''a'' = [1, 0, 0, 0, 0, 0, 0, 0, 97]"
  "encodeUtf8String lengthPrefixedEncoding ''bc'' = [2, 0, 0, 0, 0, 0, 0, 0, 98, 99]"
  by (simp_all add: lengthPrefixedEncoding_def stringToUint8ArrayUtf8_abc
      stringToUint8ArrayUtf8_a encodeNumber_Suc)

text \<open>
  Claim C8, as stated: whenever the UTF-8 bytes of \<open>A\<close> followed by those of \<open>B\<close> are
  the UTF-8 bytes of \<open>A'\<close> followed by those of \<open>B'\<close>, \<open>deriveChildSeed(A, B)\<close> equals
  \<open>deriveChildSeed(A', B')\<close>. What \<open>crypto.ts\<close> hashes is not the UTF-8 text but what
  \<open>encodeUtf8String\<close> returns, and with the length-prefixed encoder the claim's own
  example fails: \<open>ab\<close>, \<open>c\<close> and \<open>a\<close>, \<open>bc\<close> have the same UTF-8 concatenation,
  and the seeds are \<open>20263e79...\<close> and \<open>77bbcab7...\<close>.
\<close>

theorem deriveChildSeed_concat_counterexample:
  "stringToUint8ArrayUtf8 ''ab'' @ stringToUint8ArrayUtf8 ''c'' =
     stringToUint8ArrayUtf8 ''a'' @ stringToUint8ArrayUtf8 ''bc''
   \<and> deriveChildSeed lengthPrefixedEncoding ''ab'' ''c'' =
       ''20263e794775e4edf2b306c0f306af9e50175c831c857604b481e847f790bf95''
   \<and> deriveChildSeed lengthPrefixedEncoding ''a'' ''bc'' =
       ''77bbcab7072b897c548327378f11776f4853104c71bdb95a12ded5d2783523bf''
   \<and> deriveChildSeed lengthPrefixedEncoding ''ab'' ''c'' \<noteq>
       deriveChildSeed lengthPrefixedEncoding ''a'' ''bc''"
proof -
  have utf8: "stringToUint8ArrayUtf8 ''ab'' @ stringToUint8ArrayUtf8 ''c'' =
     stringToUint8ArrayUtf8 ''a'' @ stringToUint8ArrayUtf8 ''bc''"
    by (simp add: stringToUint8ArrayUtf8_abc stringToUint8ArrayUtf8_a)
  have "deriveChildSeed lengthPrefixedEncoding ''ab'' ''c'' =
      toHexString (blake2b 32 [2, 0, 0, 0, 0, 0, 0, 0, 97, 98, 1, 0, 0, 0, 0, 0, 0, 0, 99])"
    by (simp add: deriveChildSeed_def hashAll_concat HASH_LENGTH_def
        encodeUtf8String_lengthPrefixed)
  then have ab_c: "deriveChildSeed lengthPrefixedEncoding ''ab'' ''c'' =
       ''20263e794775e4edf2b306c0f306af9e50175c831c857604b481e847f790bf95''"
    unfolding blake2b_256_ab_c by (simp add: toHexString_def hex_digit_def char_of_def bit_iff_odd)
  have "deriveChildSeed lengthPrefixedEncoding ''a'' ''bc'' =
      toHexString (blake2b 32 [1, 0, 0, 0, 0, 0, 0, 0, 97, 2, 0, 0, 0, 0, 0, 0, 0, 98, 99])"
    by (simp add: deriveChildSeed_def hashAll_concat HASH_LENGTH_def
        encodeUtf8String_lengthPrefixed)
  then have a_bc: "deriveChildSeed lengthPrefixedEncoding ''a'' ''bc'' =
       ''77bbcab7072b897c548327378f11776f4853104c71bdb95a12ded5d2783523bf''"
    unfolding blake2b_256_a_bc by (simp add: toHexString_def hex_digit_def char_of_def bit_iff_odd)
  have differ: "deriveChildSeed lengthPrefixedEncoding ''ab'' ''c'' \<noteq>
       deriveChildSeed lengthPrefixedEncoding ''a'' ''bc''"
    unfolding ab_c a_bc by simp
  show ?thesis
    using utf8 ab_c a_bc differ by simp
qed

text \<open>
  Claim C8, amended: \<open>deriveChildSeed(A, B)\<close> is the hexadecimal text of the BLAKE2b-256
  hash of \<open>encodeUtf8String(A)\<close> followed by \<open>encodeUtf8String(B)\<close>, because
  \<open>hashAll\<close> feeds its arguments to one hasher with nothing between them. It depends
  only on the concatenation of these two encodings, whatever \<open>encodeUtf8String\<close>
  computes; the encodings carry the length of each string, so the concatenation of the
  UTF-8 texts does not determine it.
\<close>

theorem deriveChildSeed_concat:
  "deriveChildSeed E a b =
     toHexString (blake2b HASH_LENGTH (encodeUtf8String E a @ encodeUtf8String E b))"
  by (simp add: deriveChildSeed_def hashAll_concat)

text \<open>
  \<open>hashAll\<close> is the BLAKE2b-256 hash of its arguments laid end to end, and has 32 bytes.
\<close>

theorem hashAll_is_hash_of_concat:
  "hashAll args = blake2b 32 (concat args) \<and> length (hashAll args) = 32"
  by (simp add: hashAll_concat HASH_LENGTH_def length_blake2b)

text \<open>
  \<open>deriveChildSeed\<close> returns 64 hexadecimal characters, which \<open>hexToUint8Array\<close> reads
  back as the 32 bytes of the digest.
\<close>

theorem deriveChildSeed_hex:
  "length (deriveChildSeed E a b) = 64 \<and>
   hexToUint8Array (deriveChildSeed E a b) =
     Inr (hashAll [encodeUtf8String E a, encodeUtf8String E b])"
  by (simp add: deriveChildSeed_def length_toHexString hexToUint8Array_toHexString
      hashAll_concat HASH_LENGTH_def length_blake2b)

section \<open>\<open>setJSON\<close>: the revision of the new entry\<close>

lemma bit_length_2_53_1: "bit_length 9007199254740993 = 54"
  by simp

lemma round_to_double_exact: "\<bar>m\<bar> \<le> 2 ^ 53 \<Longrightarrow> round_to_double m = m"
  by (simp add: round_to_double_def)

lemma number_add_one: "0 \<le> n \<Longrightarrow> n < 2 ^ 53 \<Longrightarrow> number_add n 1 = n + 1"
  by (simp add: number_add_def round_to_double_def)

lemma round_to_double_2_53_1: "round_to_double 9007199254740993 = 9007199254740992"
proof -
  have a: "nat \<bar>9007199254740993 :: int\<bar> = 9007199254740993"
    by simp
  have u: "(2::nat) ^ (54 - 53) = 2"
    by simp
  show ?thesis
    unfolding round_to_double_def Let_def a bit_length_2_53_1 u by simp
qed

lemma number_add_2_53: "number_add 9007199254740992 1 = 9007199254740992"
  unfolding number_add_def using round_to_double_2_53_1 by simp

lemma number_add_7: "number_add 7 1 = 8"
  by (simp add: number_add_def round_to_double_def)

lemma hash_storedEntry:
  "HashRegistryEntry demoLibrary (entry (storedEntry 7 n sig)) = [66, 66, 66, 66, 7]"
  "HashRegistryEntry demoLibrary (entry (storedEntry 9 n sig)) = [66, 66, 66, 66, 9]"
  "HashRegistryEntry demoLibrary (entry (storedEntry 9007199254740992 n sig)) = [66, 66, 66, 66, 0]"
  by (simp_all add: demoLibrary_def storedEntry_def stringToUint8ArrayUtf8_def utf8_char_def)

lemma demo_upload:
  "uploadFileRequest (demoClient stored)
     \<lparr>file_bits = stringify demoLibrary ''{}'', file_name = ''k'',
      file_type = ''application/json''\<rparr> = Inr ''sia:AAAA''"
  by (simp add: demoClient_def)

lemma demo_trim: "trimUriPrefix demoLibrary ''sia:AAAA'' (uriSkynetPrefix demoLibrary) = ''AAAA''"
  by (simp add: demoLibrary_def)

lemma demo_publicKey: "publicKeyFromPrivateKey demoLibrary [1] = [1]"
  by (simp add: demoLibrary_def)

lemma demo_getEntry: "getEntry (demoClient s) [1] ''k'' = Inr s"
  by (simp add: demoClient_def)

lemma demo_verify: "verify demoLibrary m s k = (s = m @ k)"
  by (simp add: demoLibrary_def)

lemma storedEntry_fields:
  "entry_revision (storedEntry inner outer sig) = outer"
  "revision_v1 (entry (storedEntry inner outer sig)) = inner"
  "signature (storedEntry inner outer sig) = sig"
  by (simp_all add: storedEntry_def)

lemma setJSON_verified:
  assumes "uploadFileRequest this
             \<lparr>file_bits = stringify L json, file_name = dk, file_type = ''application/json''\<rparr>
           = Inr skylink"
    and "getEntry this (publicKeyFromPrivateKey L sk) dk = Inr (Some found)"
    and "verify L (HashRegistryEntry L (entry found)) (signature found)
           (publicKeyFromPrivateKey L sk)"
  shows "signed_entries (fst (setJSON L this sk dk json None)) =
           [\<lparr>data_v1 = trimUriPrefix L skylink (uriSkynetPrefix L),
             revision_v1 = number_add (entry_revision found) 1\<rparr>]"
    and "sent_entries (fst (setJSON L this sk dk json None)) =
           [\<lparr>data_v1 = trimUriPrefix L skylink (uriSkynetPrefix L),
             revision_v1 = number_add (entry_revision found) 1\<rparr>]"
  using assms by (simp_all add: setJSON_def current_revision_def fetch_revision_def Let_def)

lemma setJSON_zero_is_none: "setJSON L this sk dk json (Some 0) = setJSON L this sk dk json None"
proof -
  have zero: "current_revision L this k d (Some 0) = current_revision L this k d None" for k d
    by (simp add: current_revision_def)
  show ?thesis
    unfolding setJSON_def zero ..
qed

text \<open>
  Claim C3, as the spec states it: with no revision supplied, against an entry whose
  signature verifies the new entry uses the previous revision plus one. This fails in two
  ways. The revision is a JavaScript number: against a verified entry of revision
  \<open>2 ^ 53 = 9007199254740992\<close> the sum \<open>entry.revision + 1\<close> is \<open>2 ^ 53\<close> again, and
  the new entry is signed and sent with the revision of the entry it replaces. And the
  revision that is incremented is the field \<open>entry.revision\<close> of the lookup result, while
  the signature covers \<open>entry.entry\<close>: where the registry returns a verified entry of
  revision 9 with 7 beside it, the new entry has revision 8.
\<close>

theorem setJSON_revision_counterexample:
  "verify demoLibrary
     (HashRegistryEntry demoLibrary
        (entry (storedEntry 9007199254740992 9007199254740992 [66, 66, 66, 66, 0, 1])))
     (signature (storedEntry 9007199254740992 9007199254740992 [66, 66, 66, 66, 0, 1]))
     (publicKeyFromPrivateKey demoLibrary [1])
   \<and> signed_entries
        (fst (setJSON demoLibrary
                (demoClient
                   (Some (storedEntry 9007199254740992 9007199254740992 [66, 66, 66, 66, 0, 1])))
                [1] ''k'' ''{}'' None)) =
     [\<lparr>data_v1 = ''AAAA'', revision_v1 = 9007199254740992\<rparr>]
   \<and> sent_entries
        (fst (setJSON demoLibrary
                (demoClient
                   (Some (storedEntry 9007199254740992 9007199254740992 [66, 66, 66, 66, 0, 1])))
                [1] ''k'' ''{}'' None)) =
     [\<lparr>data_v1 = ''AAAA'', revision_v1 = 9007199254740992\<rparr>]
   \<and> verify demoLibrary
        (HashRegistryEntry demoLibrary (entry (storedEntry 9 7 [66, 66, 66, 66, 9, 1])))
        (signature (storedEntry 9 7 [66, 66, 66, 66, 9, 1]))
        (publicKeyFromPrivateKey demoLibrary [1])
   \<and> signed_entries
        (fst (setJSON demoLibrary (demoClient (Some (storedEntry 9 7 [66, 66, 66, 66, 9, 1])))
                [1] ''k'' ''{}'' None)) =
     [\<lparr>data_v1 = ''AAAA'', revision_v1 = 8\<rparr>]"
proof -
  have big: "verify demoLibrary
     (HashRegistryEntry demoLibrary
        (entry (storedEntry 9007199254740992 9007199254740992 [66, 66, 66, 66, 0, 1])))
     (signature (storedEntry 9007199254740992 9007199254740992 [66, 66, 66, 66, 0, 1]))
     (publicKeyFromPrivateKey demoLibrary [1])"
    by (simp add: hash_storedEntry storedEntry_fields demo_publicKey demo_verify)
  have skew: "verify demoLibrary
        (HashRegistryEntry demoLibrary (entry (storedEntry 9 7 [66, 66, 66, 66, 9, 1])))
        (signature (storedEntry 9 7 [66, 66, 66, 66, 9, 1]))
        (publicKeyFromPrivateKey demoLibrary [1])"
    by (simp add: hash_storedEntry storedEntry_fields demo_publicKey demo_verify)
  have get: "getEntry (demoClient s) (publicKeyFromPrivateKey demoLibrary [1]) ''k'' = Inr s" for s
    by (simp add: demo_publicKey demo_getEntry)
  show ?thesis
    using big skew
      setJSON_verified [OF demo_upload get big]
      setJSON_verified [OF demo_upload get skew]
    by (simp add: storedEntry_fields demo_trim number_add_2_53 number_add_7)
qed

text \<open>
  Claim C3, amended: a call of \<open>setJSON\<close> with no revision, whose upload succeeded,
  reads the registry. If there is no entry, the one entry it signs and sends has revision
  0. If there is an entry whose signature verifies under the public key of the private key,
  the one entry it signs and sends has the revision returned beside that entry plus one, as
  JavaScript numbers add; this is the revision of the verified entry plus one when the two
  revisions agree and lie between 0 and \<open>2 ^ 53 - 1\<close>. If the signature does not verify,
  it throws \<open>could not verify signature\<close> and has signed and sent nothing.
\<close>

theorem setJSON_revision:
  assumes "uploadFileRequest this
             \<lparr>file_bits = stringify L json, file_name = dk, file_type = ''application/json''\<rparr>
           = Inr skylink"
  shows "(getEntry this (publicKeyFromPrivateKey L sk) dk = Inr None \<longrightarrow>
            signed_entries (fst (setJSON L this sk dk json None)) =
              [\<lparr>data_v1 = trimUriPrefix L skylink (uriSkynetPrefix L), revision_v1 = 0\<rparr>] \<and>
            sent_entries (fst (setJSON L this sk dk json None)) =
              [\<lparr>data_v1 = trimUriPrefix L skylink (uriSkynetPrefix L), revision_v1 = 0\<rparr>])
       \<and> (\<forall>found. getEntry this (publicKeyFromPrivateKey L sk) dk = Inr (Some found) \<and>
                   verify L (HashRegistryEntry L (entry found)) (signature found)
                     (publicKeyFromPrivateKey L sk) \<longrightarrow>
            signed_entries (fst (setJSON L this sk dk json None)) =
              [\<lparr>data_v1 = trimUriPrefix L skylink (uriSkynetPrefix L),
                revision_v1 = number_add (entry_revision found) 1\<rparr>] \<and>
            sent_entries (fst (setJSON L this sk dk json None)) =
              [\<lparr>data_v1 = trimUriPrefix L skylink (uriSkynetPrefix L),
                revision_v1 = number_add (entry_revision found) 1\<rparr>])
       \<and> (\<forall>found. getEntry this (publicKeyFromPrivateKey L sk) dk = Inr (Some found) \<and>
                   verify L (HashRegistryEntry L (entry found)) (signature found)
                     (publicKeyFromPrivateKey L sk) \<and>
                   entry_revision found = revision_v1 (entry found) \<and>
                   0 \<le> revision_v1 (entry found) \<and> revision_v1 (entry found) < 2 ^ 53 \<longrightarrow>
            signed_entries (fst (setJSON L this sk dk json None)) =
              [\<lparr>data_v1 = trimUriPrefix L skylink (uriSkynetPrefix L),
                revision_v1 = revision_v1 (entry found) + 1\<rparr>] \<and>
            sent_entries (fst (setJSON L this sk dk json None)) =
              [\<lparr>data_v1 = trimUriPrefix L skylink (uriSkynetPrefix L),
                revision_v1 = revision_v1 (entry found) + 1\<rparr>])
       \<and> (\<forall>found. getEntry this (publicKeyFromPrivateKey L sk) dk = Inr (Some found) \<and>
                   \<not> verify L (HashRegistryEntry L (entry found)) (signature found)
                       (publicKeyFromPrivateKey L sk) \<longrightarrow>
            snd (setJSON L this sk dk json None) = Inl (Error ''could not verify signature'') \<and>
            signed_entries (fst (setJSON L this sk dk json None)) = [] \<and>
            sent_entries (fst (setJSON L this sk dk json None)) = [])"
proof -
  have none: "getEntry this (publicKeyFromPrivateKey L sk) dk = Inr None \<longrightarrow>
            signed_entries (fst (setJSON L this sk dk json None)) =
              [\<lparr>data_v1 = trimUriPrefix L skylink (uriSkynetPrefix L), revision_v1 = 0\<rparr>] \<and>
            sent_entries (fst (setJSON L this sk dk json None)) =
              [\<lparr>data_v1 = trimUriPrefix L skylink (uriSkynetPrefix L), revision_v1 = 0\<rparr>]"
    using assms by (simp add: setJSON_def current_revision_def fetch_revision_def Let_def)
  have bad: "\<forall>found. getEntry this (publicKeyFromPrivateKey L sk) dk = Inr (Some found) \<and>
                   \<not> verify L (HashRegistryEntry L (entry found)) (signature found)
                       (publicKeyFromPrivateKey L sk) \<longrightarrow>
            snd (setJSON L this sk dk json None) = Inl (Error ''could not verify signature'') \<and>
            signed_entries (fst (setJSON L this sk dk json None)) = [] \<and>
            sent_entries (fst (setJSON L this sk dk json None)) = []"
    using assms by (simp add: setJSON_def current_revision_def fetch_revision_def Let_def)
  show ?thesis
    using none bad setJSON_verified [OF assms] by (simp add: number_add_one)
qed

theorem setJSON_revision_witness:
  "signed_entries (fst (setJSON demoLibrary (demoClient None) [1] ''k'' ''{}'' None)) =
     [\<lparr>data_v1 = ''AAAA'', revision_v1 = 0\<rparr>]
   \<and> signed_entries
        (fst (setJSON demoLibrary (demoClient (Some (storedEntry 7 7 [66, 66, 66, 66, 7, 1])))
                [1] ''k'' ''{}'' None)) =
     [\<lparr>data_v1 = ''AAAA'', revision_v1 = 8\<rparr>]
   \<and> sent_entries
        (fst (setJSON demoLibrary (demoClient (Some (storedEntry 7 7 [66, 66, 66, 66, 7, 1])))
                [1] ''k'' ''{}'' None)) =
     [\<lparr>data_v1 = ''AAAA'', revision_v1 = 8\<rparr>]
   \<and> snd (setJSON demoLibrary (demoClient (Some (storedEntry 7 7 [0]))) [1] ''k'' ''{}'' None) =
     Inl (Error ''could not verify signature'')
   \<and> sent_entries
        (fst (setJSON demoLibrary (demoClient (Some (storedEntry 7 7 [0]))) [1] ''k'' ''{}'' None)) = []"
proof -
  have good: "verify demoLibrary
                (HashRegistryEntry demoLibrary (entry (storedEntry 7 7 [66, 66, 66, 66, 7, 1])))
                (signature (storedEntry 7 7 [66, 66, 66, 66, 7, 1])) [1]"
    by (simp add: hash_storedEntry storedEntry_fields demo_verify)
  have bad: "\<not> verify demoLibrary (HashRegistryEntry demoLibrary (entry (storedEntry 7 7 [0])))
                (signature (storedEntry 7 7 [0])) [1]"
    by (simp add: hash_storedEntry storedEntry_fields demo_verify)
  note empty = setJSON_revision [OF demo_upload, of None "[1]"]
  note found = setJSON_revision [OF demo_upload,
      of "Some (storedEntry 7 7 [66, 66, 66, 66, 7, 1])" "[1]"]
  note forged = setJSON_revision [OF demo_upload, of "Some (storedEntry 7 7 [0])" "[1]"]
  have zero: "signed_entries (fst (setJSON demoLibrary (demoClient None) [1] ''k'' ''{}'' None)) =
     [\<lparr>data_v1 = ''AAAA'', revision_v1 = 0\<rparr>]"
    using empty [THEN conjunct1]
    by (simp add: demo_trim demo_publicKey demo_getEntry)
  have eight: "signed_entries
        (fst (setJSON demoLibrary (demoClient (Some (storedEntry 7 7 [66, 66, 66, 66, 7, 1])))
                [1] ''k'' ''{}'' None)) =
     [\<lparr>data_v1 = ''AAAA'', revision_v1 = 8\<rparr>]
   \<and> sent_entries
        (fst (setJSON demoLibrary (demoClient (Some (storedEntry 7 7 [66, 66, 66, 66, 7, 1])))
                [1] ''k'' ''{}'' None)) =
     [\<lparr>data_v1 = ''AAAA'', revision_v1 = 8\<rparr>]"
    using found [THEN conjunct2, THEN conjunct2, THEN conjunct1] good
    by (simp add: demo_trim demo_publicKey demo_getEntry storedEntry_fields)
  have thrown: "snd (setJSON demoLibrary (demoClient (Some (storedEntry 7 7 [0]))) [1] ''k'' ''{}'' None) =
     Inl (Error ''could not verify signature'')
   \<and> sent_entries
        (fst (setJSON demoLibrary (demoClient (Some (storedEntry 7 7 [0]))) [1] ''k'' ''{}'' None)) = []"
    using forged [THEN conjunct2, THEN conjunct2, THEN conjunct2] bad
    by (simp add: demo_trim demo_publicKey demo_getEntry storedEntry_fields)
  show ?thesis
    using zero eight thrown by simp
qed

text \<open>
  Claim C9, as stated: \<open>setJSON\<close> called with the revision 0 signs with the previous
  revision plus one. The first half of the claim holds, the call does what a call with no
  revision does; the sum does not: against a verified entry of revision
  \<open>2 ^ 53 = 9007199254740992\<close> the call signs and sends \<open>2 ^ 53\<close> again, and against a
  verified entry of revision 9 returned with 7 beside it the call signs 8.
\<close>

theorem setJSON_revision_zero_counterexample:
  "verify demoLibrary
     (HashRegistryEntry demoLibrary
        (entry (storedEntry 9007199254740992 9007199254740992 [66, 66, 66, 66, 0, 1])))
     (signature (storedEntry 9007199254740992 9007199254740992 [66, 66, 66, 66, 0, 1]))
     (publicKeyFromPrivateKey demoLibrary [1])
   \<and> signed_entries
        (fst (setJSON demoLibrary
                (demoClient
                   (Some (storedEntry 9007199254740992 9007199254740992 [66, 66, 66, 66, 0, 1])))
                [1] ''k'' ''{}'' (Some 0))) =
     [\<lparr>data_v1 = ''AAAA'', revision_v1 = 9007199254740992\<rparr>]
   \<and> verify demoLibrary
        (HashRegistryEntry demoLibrary (entry (storedEntry 9 7 [66, 66, 66, 66, 9, 1])))
        (signature (storedEntry 9 7 [66, 66, 66, 66, 9, 1]))
        (publicKeyFromPrivateKey demoLibrary [1])
   \<and> signed_entries
        (fst (setJSON demoLibrary (demoClient (Some (storedEntry 9 7 [66, 66, 66, 66, 9, 1])))
                [1] ''k'' ''{}'' (Some 0))) =
     [\<lparr>data_v1 = ''AAAA'', revision_v1 = 8\<rparr>]"
proof -
  have big: "verify demoLibrary
     (HashRegistryEntry demoLibrary
        (entry (storedEntry 9007199254740992 9007199254740992 [66, 66, 66, 66, 0, 1])))
     (signature (storedEntry 9007199254740992 9007199254740992 [66, 66, 66, 66, 0, 1]))
     (publicKeyFromPrivateKey demoLibrary [1])"
    by (simp add: hash_storedEntry storedEntry_fields demo_publicKey demo_verify)
  have skew: "verify demoLibrary
        (HashRegistryEntry demoLibrary (entry (storedEntry 9 7 [66, 66, 66, 66, 9, 1])))
        (signature (storedEntry 9 7 [66, 66, 66, 66, 9, 1]))
        (publicKeyFromPrivateKey demoLibrary [1])"
    by (simp add: hash_storedEntry storedEntry_fields demo_publicKey demo_verify)
  have get: "getEntry (demoClient s) (publicKeyFromPrivateKey demoLibrary [1]) ''k'' = Inr s" for s
    by (simp add: demo_publicKey demo_getEntry)
  show ?thesis
    unfolding setJSON_zero_is_none
    using big skew
      setJSON_verified [OF demo_upload get big]
      setJSON_verified [OF demo_upload get skew]
    by (simp add: storedEntry_fields demo_trim number_add_2_53 number_add_7)
qed

text \<open>
  Claim C9, amended: \<open>setJSON\<close> called with the revision 0 does what it does with no
  revision at all, since it tests \<open>!revision\<close>. After a successful upload it signs
  revision 0 when the registry has no entry, and on an entry that verifies it signs the
  revision returned beside that entry plus one, as JavaScript numbers add, not the 0 the
  caller asked for; this is the revision of the verified entry plus one when the two
  revisions agree and lie between 0 and \<open>2 ^ 53 - 1\<close>.
\<close>

theorem setJSON_revision_zero:
  "setJSON L this sk dk json (Some 0) = setJSON L this sk dk json None
   \<and> (uploadFileRequest this
         \<lparr>file_bits = stringify L json, file_name = dk, file_type = ''application/json''\<rparr>
        = Inr skylink \<and>
      getEntry this (publicKeyFromPrivateKey L sk) dk = Inr None
      \<longrightarrow> signed_entries (fst (setJSON L this sk dk json (Some 0))) =
            [\<lparr>data_v1 = trimUriPrefix L skylink (uriSkynetPrefix L), revision_v1 = 0\<rparr>])
   \<and> (uploadFileRequest this
         \<lparr>file_bits = stringify L json, file_name = dk, file_type = ''application/json''\<rparr>
        = Inr skylink \<and>
      getEntry this (publicKeyFromPrivateKey L sk) dk = Inr (Some found) \<and>
      verify L (HashRegistryEntry L (entry found)) (signature found) (publicKeyFromPrivateKey L sk)
      \<longrightarrow> signed_entries (fst (setJSON L this sk dk json (Some 0))) =
            [\<lparr>data_v1 = trimUriPrefix L skylink (uriSkynetPrefix L),
              revision_v1 = number_add (entry_revision found) 1\<rparr>])
   \<and> (uploadFileRequest this
         \<lparr>file_bits = stringify L json, file_name = dk, file_type = ''application/json''\<rparr>
        = Inr skylink \<and>
      getEntry this (publicKeyFromPrivateKey L sk) dk = Inr (Some found) \<and>
      verify L (HashRegistryEntry L (entry found)) (signature found) (publicKeyFromPrivateKey L sk) \<and>
      entry_revision found = revision_v1 (entry found) \<and>
      0 \<le> revision_v1 (entry found) \<and> revision_v1 (entry found) < 2 ^ 53
      \<longrightarrow> signed_entries (fst (setJSON L this sk dk json (Some 0))) =
            [\<lparr>data_v1 = trimUriPrefix L skylink (uriSkynetPrefix L),
              revision_v1 = revision_v1 (entry found) + 1\<rparr>])"
proof -
  have none: "uploadFileRequest this
         \<lparr>file_bits = stringify L json, file_name = dk, file_type = ''application/json''\<rparr>
        = Inr skylink \<and>
      getEntry this (publicKeyFromPrivateKey L sk) dk = Inr None
      \<longrightarrow> signed_entries (fst (setJSON L this sk dk json None)) =
            [\<lparr>data_v1 = trimUriPrefix L skylink (uriSkynetPrefix L), revision_v1 = 0\<rparr>]"
    by (simp add: setJSON_def current_revision_def fetch_revision_def Let_def)
  show ?thesis
    unfolding setJSON_zero_is_none
    using none setJSON_verified(1) [of this L json dk skylink sk found]
    by (simp add: number_add_one)
qed

theorem setJSON_revision_zero_witness:
  "setJSON demoLibrary (demoClient (Some (storedEntry 7 7 [66, 66, 66, 66, 7, 1]))) [1] ''k'' ''{}'' (Some 0)
     = setJSON demoLibrary (demoClient (Some (storedEntry 7 7 [66, 66, 66, 66, 7, 1]))) [1] ''k'' ''{}'' None
   \<and> signed_entries (fst (setJSON demoLibrary (demoClient None) [1] ''k'' ''{}'' (Some 0))) =
     [\<lparr>data_v1 = ''AAAA'', revision_v1 = 0\<rparr>]
   \<and> signed_entries
        (fst (setJSON demoLibrary (demoClient (Some (storedEntry 7 7 [66, 66, 66, 66, 7, 1])))
                [1] ''k'' ''{}'' (Some 0))) =
     [\<lparr>data_v1 = ''AAAA'', revision_v1 = 8\<rparr>]"
proof -
  have good: "verify demoLibrary
                (HashRegistryEntry demoLibrary (entry (storedEntry 7 7 [66, 66, 66, 66, 7, 1])))
                (signature (storedEntry 7 7 [66, 66, 66, 66, 7, 1])) [1]"
    by (simp add: hash_storedEntry storedEntry_fields demo_verify)
  note found = setJSON_revision_zero [of demoLibrary
        "demoClient (Some (storedEntry 7 7 [66, 66, 66, 66, 7, 1]))"
        "[1]" "''k''" "''{}''" "''sia:AAAA''" "storedEntry 7 7 [66, 66, 66, 66, 7, 1]"]
  note empty = setJSON_revision_zero [of demoLibrary "demoClient None"
        "[1]" "''k''" "''{}''" "''sia:AAAA''" "storedEntry 7 7 [66, 66, 66, 66, 7, 1]"]
  have same: "setJSON demoLibrary (demoClient (Some (storedEntry 7 7 [66, 66, 66, 66, 7, 1]))) [1] ''k'' ''{}'' (Some 0)
     = setJSON demoLibrary (demoClient (Some (storedEntry 7 7 [66, 66, 66, 66, 7, 1]))) [1] ''k'' ''{}'' None"
    using found by (rule conjunct1)
  have zero: "signed_entries (fst (setJSON demoLibrary (demoClient None) [1] ''k'' ''{}'' (Some 0))) =
     [\<lparr>data_v1 = ''AAAA'', revision_v1 = 0\<rparr>]"
    using empty [THEN conjunct2, THEN conjunct1]
    by (simp add: demo_upload demo_trim demo_publicKey demo_getEntry)
  have signed: "signed_entries
        (fst (setJSON demoLibrary (demoClient (Some (storedEntry 7 7 [66, 66, 66, 66, 7, 1])))
                [1] ''k'' ''{}'' (Some 0))) =
     [\<lparr>data_v1 = ''AAAA'', revision_v1 = 8\<rparr>]"
    using found [THEN conjunct2, THEN conjunct2, THEN conjunct2] good
    by (simp add: demo_upload demo_trim demo_publicKey demo_getEntry storedEntry_fields)
  show ?thesis
    using same zero signed by simp
qed

text \<open>
  A revision other than 0 given by the caller is used as it is: the registry is not read,
  nothing is verified, and the entry signed and sent carries that revision.
\<close>

theorem setJSON_explicit_revision:
  assumes "r \<noteq> 0"
    and "uploadFileRequest this
           \<lparr>file_bits = stringify L json, file_name = dk, file_type = ''application/json''\<rparr>
         = Inr skylink"
  shows "setJSON L this sk dk json (Some r) =
     ([Log 1,
       UploadFile \<lparr>file_bits = stringify L json, file_name = dk, file_type = ''application/json''\<rparr>,
       Log 2, Log 8,
       Sign \<lparr>data_v1 = trimUriPrefix L skylink (uriSkynetPrefix L), revision_v1 = r\<rparr>,
       Log 9,
       SetEntry (publicKeyFromPrivateKey L sk) dk
         \<lparr>data_v1 = trimUriPrefix L skylink (uriSkynetPrefix L), revision_v1 = r\<rparr>
         (sign L (HashRegistryEntry L
            \<lparr>data_v1 = trimUriPrefix L skylink (uriSkynetPrefix L), revision_v1 = r\<rparr>) sk)],
      setEntry this (publicKeyFromPrivateKey L sk) dk
        \<lparr>data_v1 = trimUriPrefix L skylink (uriSkynetPrefix L), revision_v1 = r\<rparr>
        (sign L (HashRegistryEntry L
           \<lparr>data_v1 = trimUriPrefix L skylink (uriSkynetPrefix L), revision_v1 = r\<rparr>) sk))"
  using assms by (simp add: setJSON_def current_revision_def fetch_revision_def Let_def)

theorem setJSON_explicit_revision_witness:
  "sent_entries (fst (setJSON demoLibrary (demoClient None) [1] ''k'' ''{}'' (Some 5))) =
     [\<lparr>data_v1 = ''AAAA'', revision_v1 = 5\<rparr>]"
proof -
  have r: "(5::int) \<noteq> 0" by simp
  show ?thesis
    unfolding setJSON_explicit_revision [OF r demo_upload [of None], of "[1]"]
    by (simp add: demo_trim)
qed

section \<open>\<open>MySky.New\<close>: the singleton\<close>

lemma New_loaded:
  "MySky_instance p \<noteq> None \<Longrightarrow>
   New p skappDomain r1 r2 =
     (p\<lparr>calls := calls p @ [Settled]\<rparr>, [Threw (Error ''MySky was already loaded.'')])"
  by (auto simp add: New_def call_New_def connector_settled_def domain_settled_def nth_append)

lemma New_init_failed:
  "MySky_instance p = None \<Longrightarrow>
   New p skappDomain (Inl e) r2 = (p\<lparr>calls := calls p @ [Settled]\<rparr>, [Threw e])"
  by (simp add: New_def call_New_def connector_settled_def domain_settled_def nth_append)

lemma New_domain_failed:
  "MySky_instance p = None \<Longrightarrow>
   New p skappDomain (Inr c) (Inl e) = (p\<lparr>calls := calls p @ [Settled]\<rparr>, [Threw e])"
  by (simp add: New_def call_New_def connector_settled_def domain_settled_def nth_append)

lemma New_loads:
  "MySky_instance p = None \<Longrightarrow>
   New p skappDomain (Inr c) (Inr d) =
     (p\<lparr>MySky_instance :=
          Some \<lparr>connector = c, permissions = [Permission d skappDomain Hidden Write], domain = d\<rparr>,
        calls := calls p @ [Settled],
        constructed := constructed p @
          [\<lparr>connector = c, permissions = [Permission d skappDomain Hidden Write], domain = d\<rparr>]\<rparr>,
      [Returned \<lparr>connector = c, permissions = [Permission d skappDomain Hidden Write], domain = d\<rparr>])"
  by (simp add: New_def call_New_def connector_settled_def domain_settled_def nth_append)

text \<open>
  Claim C10 fails where two calls overlap. \<open>MySky.New\<close> is called twice before the
  promise of \<open>Connector.init\<close> of the first call has settled: both calls find
  \<open>MySky.instance\<close> still \<open>null\<close>, neither throws, both build a \<open>MySky\<close> object and both
  return one; the second assignment replaces the first. Two instances have been created.
\<close>

theorem New_overlapping_calls:
  "run (start :: string process)
     [Call ''a.hns'', Call ''b.hns'',
      ConnectorInit 0 (Inr ''frame1''), ConnectorInit 1 (Inr ''frame2''),
      ExtractDomain 0 (Inr ''skapp.hns''), ExtractDomain 1 (Inr ''skapp.hns'')] =
   (\<lparr>MySky_instance =
        Some \<lparr>connector = ''frame2'', permissions = [Permission ''skapp.hns'' ''b.hns'' Hidden Write],
              domain = ''skapp.hns''\<rparr>,
      calls = [Settled, Settled],
      constructed =
        [\<lparr>connector = ''frame1'', permissions = [Permission ''skapp.hns'' ''a.hns'' Hidden Write],
          domain = ''skapp.hns''\<rparr>,
         \<lparr>connector = ''frame2'', permissions = [Permission ''skapp.hns'' ''b.hns'' Hidden Write],
          domain = ''skapp.hns''\<rparr>]\<rparr>,
    [Returned \<lparr>connector = ''frame1'', permissions = [Permission ''skapp.hns'' ''a.hns'' Hidden Write],
               domain = ''skapp.hns''\<rparr>,
     Returned \<lparr>connector = ''frame2'', permissions = [Permission ''skapp.hns'' ''b.hns'' Hidden Write],
               domain = ''skapp.hns''\<rparr>])"
  by (simp add: start_def call_New_def connector_settled_def domain_settled_def)

text \<open>
  A call that is awaited before anything else runs throws \<open>MySky was already loaded.\<close>
  when \<open>MySky.instance\<close> is set at its start, and then leaves \<open>MySky.instance\<close> and the
  objects built as they were. When \<open>MySky.instance\<close> is \<open>null\<close> at its start, the call
  throws what \<open>Connector.init\<close> or \<open>client.extractDomain\<close> throws, or else returns a new
  object and has set \<open>MySky.instance\<close> to it.
\<close>

theorem New_alone:
  "(MySky_instance p \<noteq> None \<longrightarrow>
      snd (New p skappDomain r1 r2) = [Threw (Error ''MySky was already loaded.'')] \<and>
      MySky_instance (fst (New p skappDomain r1 r2)) = MySky_instance p \<and>
      constructed (fst (New p skappDomain r1 r2)) = constructed p)
   \<and> (MySky_instance p = None \<longrightarrow>
      (case r1 of
         Inl e \<Rightarrow> snd (New p skappDomain r1 r2) = [Threw e] \<and>
                  MySky_instance (fst (New p skappDomain r1 r2)) = None
       | Inr c \<Rightarrow>
           (case r2 of
              Inl e \<Rightarrow> snd (New p skappDomain r1 r2) = [Threw e] \<and>
                       MySky_instance (fst (New p skappDomain r1 r2)) = None
            | Inr d \<Rightarrow>
                snd (New p skappDomain r1 r2) =
                  [Returned \<lparr>connector = c,
                             permissions = [Permission d skappDomain Hidden Write], domain = d\<rparr>] \<and>
                MySky_instance (fst (New p skappDomain r1 r2)) =
                  Some \<lparr>connector = c,
                        permissions = [Permission d skappDomain Hidden Write], domain = d\<rparr>)))"
  by (simp add: New_loaded New_init_failed New_domain_failed New_loads split: sum.split)

theorem New_alone_witness:
  "snd (New (start :: string process) ''a.hns'' (Inr ''frame1'') (Inr ''skapp.hns'')) =
     [Returned \<lparr>connector = ''frame1'', permissions = [Permission ''skapp.hns'' ''a.hns'' Hidden Write],
                domain = ''skapp.hns''\<rparr>]
   \<and> snd (New (fst (New (start :: string process) ''a.hns'' (Inr ''frame1'') (Inr ''skapp.hns'')))
             ''b.hns'' (Inr ''frame2'') (Inr ''skapp.hns'')) =
     [Threw (Error ''MySky was already loaded.'')]"
proof -
  have none: "MySky_instance (start :: string process) = None"
    by (simp add: start_def)
  have first: "snd (New (start :: string process) ''a.hns'' (Inr ''frame1'') (Inr ''skapp.hns'')) =
     [Returned \<lparr>connector = ''frame1'', permissions = [Permission ''skapp.hns'' ''a.hns'' Hidden Write],
                domain = ''skapp.hns''\<rparr>]
     \<and> MySky_instance (fst (New (start :: string process) ''a.hns'' (Inr ''frame1'') (Inr ''skapp.hns''))) =
        Some \<lparr>connector = ''frame1'', permissions = [Permission ''skapp.hns'' ''a.hns'' Hidden Write],
              domain = ''skapp.hns''\<rparr>"
    using New_alone [of "start :: string process" "''a.hns''" "Inr ''frame1''" "Inr ''skapp.hns''"] none by simp
  then have some: "MySky_instance (fst (New (start :: string process) ''a.hns'' (Inr ''frame1'') (Inr ''skapp.hns''))) \<noteq> None"
    by simp
  have second: "snd (New (fst (New (start :: string process) ''a.hns'' (Inr ''frame1'') (Inr ''skapp.hns'')))
             ''b.hns'' (Inr ''frame2'') (Inr ''skapp.hns'')) =
     [Threw (Error ''MySky was already loaded.'')]"
    using New_alone [of "fst (New (start :: string process) ''a.hns'' (Inr ''frame1'') (Inr ''skapp.hns''))"
        "''b.hns''" "Inr ''frame2''" "Inr ''skapp.hns''"] some by blast
  show ?thesis
    using first second by simp
qed

text \<open>
  Calls made one after the other, each awaited before the next is made, build at most one
  \<open>MySky\<close> object, whatever their collaborators settle to.
\<close>

lemma New_keeps_one:
  assumes "(MySky_instance p = None \<and> constructed p = []) \<or>
           (MySky_instance p \<noteq> None \<and> length (constructed p) = 1)"
  shows "(MySky_instance (fst (New p skappDomain r1 r2)) = None \<and>
            constructed (fst (New p skappDomain r1 r2)) = []) \<or>
         (MySky_instance (fst (New p skappDomain r1 r2)) \<noteq> None \<and>
            length (constructed (fst (New p skappDomain r1 r2))) = 1)"
proof (cases "MySky_instance p = None")
  case True
  with assms have "constructed p = []" by simp
  with True show ?thesis
    by (cases r1; cases r2) (simp_all add: New_init_failed New_domain_failed New_loads)
next
  case False
  with assms show ?thesis by (simp add: New_loaded)
qed

lemma New_each_keeps_one:
  "(MySky_instance p = None \<and> constructed p = []) \<or>
     (MySky_instance p \<noteq> None \<and> length (constructed p) = 1) \<Longrightarrow>
   length (constructed (New_each p cs)) \<le> 1"
proof (induction cs arbitrary: p)
  case Nil
  then show ?case by auto
next
  case (Cons x cs)
  obtain skappDomain r1 r2 where x: "x = (skappDomain, r1, r2)"
    by (cases x) auto
  show ?case
    unfolding x New_each.simps
    by (rule Cons.IH) (rule New_keeps_one [OF Cons.prems])
qed

theorem New_each_at_most_one:
  "length (constructed (New_each start cs)) \<le> 1"
  by (rule New_each_keeps_one) (simp add: start_def)

section \<open>The path seed hierarchy: compositionality\<close>

lemma split_slash_append:
  "split_slash cur (p @ CHR ''/'' # q) = split_slash cur p @ split_slash [] q"
  by (induction p arbitrary: cur) simp_all

lemma path_segments_append:
  "path_segments (p @ ''/'' @ q) = path_segments p @ path_segments q"
  by (simp add: path_segments_def split_slash_append)

lemma foldl_butlast_last:
  "names \<noteq> [] \<Longrightarrow> f (foldl f s (butlast names)) (last names) = foldl f s names"
  by (induction names rule: rev_induct) simp_all

lemma deriveEncryptedPathSeed_fold:
  assumes "isHexString R" "length R = 128" "path_segments p \<noteq> []"
  shows "deriveEncryptedPathSeed wide R p isDirectory =
         Inr (toHexString ((if isDirectory then (\<lambda>leaf. leaf) else take 32)
                (foldl (derive_segment wide) (hex_bytes R) (path_segments p))))"
proof -
  obtain name names where ns: "path_segments p = name # names"
    using assms(3) by (cases "path_segments p") auto
  have "derive_segment wide (foldl (derive_segment wide) (hex_bytes R) (butlast (name # names)))
          (last (name # names)) = foldl (derive_segment wide) (hex_bytes R) (name # names)"
    by (rule foldl_butlast_last) simp
  then show ?thesis
    using assms(1,2) by (simp add: deriveEncryptedPathSeed_def hexToUint8Array_def and_then_def ns)
qed

lemma length_derived:
  assumes "\<And>x. length (wide x) = 64" "names \<noteq> []"
  shows "length (foldl (derive_segment wide) s names) = 64"
  using assms(2) by (induction names rule: rev_induct) (simp_all add: derive_segment_def assms(1))

text \<open>
  Claim C1: for every directory path seed \<open>R\<close> of 128 hexadecimal characters and all
  sub paths \<open>p\<close> and \<open>q\<close> that each hold a segment, deriving the directory seed of
  \<open>p\<close> from \<open>R\<close> and then the seed of \<open>q\<close> from it gives the seed derived from
  \<open>R\<close> for the path \<open>p/q\<close> in one call, for a file leaf and for a directory leaf alike,
  and the derivation succeeds. So the seed depends on the root seed and the whole path only,
  not on where the path was cut. The wide hash is any function with 64 bytes of output.
\<close>

theorem deriveEncryptedPathSeed_compositional:
  assumes wide: "\<And>x. length (wide x) = 64"
    and seed: "isHexString R" "length R = 128"
    and segs: "path_segments p \<noteq> []" "path_segments q \<noteq> []"
  shows "and_then (deriveEncryptedPathSeed wide R p True)
           (\<lambda>D. deriveEncryptedPathSeed wide D q isDirectory)
         = deriveEncryptedPathSeed wide R (p @ ''/'' @ q) isDirectory
       \<and> (\<exists>s. deriveEncryptedPathSeed wide R (p @ ''/'' @ q) isDirectory = Inr s)"
proof -
  let ?F = "foldl (derive_segment wide)"
  let ?D = "toHexString (?F (hex_bytes R) (path_segments p))"
  have dir: "deriveEncryptedPathSeed wide R p True = Inr ?D"
    using seed segs(1) by (simp add: deriveEncryptedPathSeed_fold)
  have "length (?F (hex_bytes R) (path_segments p)) = 64"
    using wide segs(1) by (rule length_derived)
  then have D: "isHexString ?D" "length ?D = 128" "hex_bytes ?D = ?F (hex_bytes R) (path_segments p)"
    by (simp_all add: isHexString_toHexString length_toHexString hex_bytes_toHexString)
  have both: "path_segments (p @ ''/'' @ q) = path_segments p @ path_segments q"
    by (rule path_segments_append)
  have "path_segments (p @ ''/'' @ q) \<noteq> []"
    unfolding both using segs(1) by simp
  from deriveEncryptedPathSeed_fold [OF seed this, of wide isDirectory]
  have whole: "deriveEncryptedPathSeed wide R (p @ ''/'' @ q) isDirectory =
      Inr (toHexString ((if isDirectory then (\<lambda>leaf. leaf) else take 32)
             (?F (hex_bytes R) (path_segments p @ path_segments q))))"
    unfolding both .
  have "deriveEncryptedPathSeed wide ?D q isDirectory =
      Inr (toHexString ((if isDirectory then (\<lambda>leaf. leaf) else take 32)
             (?F (?F (hex_bytes R) (path_segments p)) (path_segments q))))"
    using D segs(2) by (simp add: deriveEncryptedPathSeed_fold)
  then show ?thesis
    unfolding dir whole by (simp add: and_then_def)
qed

lemma isHexString_replicate: "hex_value ch \<noteq> None \<Longrightarrow> isHexString (replicate n ch)"
  by (simp add: isHexString_def list_all_iff)

theorem deriveEncryptedPathSeed_compositional_witness:
  "and_then (deriveEncryptedPathSeed (blake2b 64) (replicate 128 CHR ''a'') ''path/to'' True)
     (\<lambda>D. deriveEncryptedPathSeed (blake2b 64) D ''file.json'' False)
   = deriveEncryptedPathSeed (blake2b 64) (replicate 128 CHR ''a'') ''path/to/file.json'' False
   \<and> (\<exists>s. deriveEncryptedPathSeed (blake2b 64) (replicate 128 CHR ''a'') ''path/to/file.json'' False
            = Inr s)"
proof -
  have wide: "length (blake2b 64 x) = 64" for x
    by (simp add: length_blake2b)
  have hex: "isHexString (replicate 128 CHR ''a'')"
    by (rule isHexString_replicate) (simp add: hex_value_def)
  have len: "length (replicate 128 CHR ''a'') = 128"
    by simp
  have p: "path_segments ''path/to'' \<noteq> []"
    by (simp add: path_segments_def)
  have q: "path_segments ''file.json'' \<noteq> []"
    by (simp add: path_segments_def)
  have "''path/to'' @ ''/'' @ ''file.json'' = ''path/to/file.json''"
    by simp
  then show ?thesis
    using deriveEncryptedPathSeed_compositional [of "blake2b 64", OF wide hex len p q, of False]
    by simp
qed

end
